theory Spec2Isabelle
  imports Main
begin

section \<open>JavaScript values used by the two tools\<close>

text \<open>
  A JavaScript number is modelled as either \<open>NaN\<close> or an integer. Every number the two
  tools compute with is integer valued (milliseconds, seconds, minutes, hours); the model
  keeps the exact integer, which is what IEEE doubles do below \<open>2^53\<close>. Strings are lists
  of 8-bit characters, standing for code units below 256.
\<close>

datatype number = NaN | Num int

definition num_add :: "number \<Rightarrow> number \<Rightarrow> number" where
  "num_add a b = (case a of NaN \<Rightarrow> NaN | Num x \<Rightarrow> (case b of NaN \<Rightarrow> NaN | Num y \<Rightarrow> Num (x + y)))"

definition num_sub :: "number \<Rightarrow> number \<Rightarrow> number" where
  "num_sub a b = (case a of NaN \<Rightarrow> NaN | Num x \<Rightarrow> (case b of NaN \<Rightarrow> NaN | Num y \<Rightarrow> Num (x - y)))"

definition num_mul :: "number \<Rightarrow> number \<Rightarrow> number" where
  "num_mul a b = (case a of NaN \<Rightarrow> NaN | Num x \<Rightarrow> (case b of NaN \<Rightarrow> NaN | Num y \<Rightarrow> Num (x * y)))"

text \<open>The operator \<open>%\<close>: the remainder has the sign of the dividend; a zero divisor gives \<open>NaN\<close>.\<close>

definition num_rem :: "number \<Rightarrow> number \<Rightarrow> number" where
  "num_rem a b = (case a of NaN \<Rightarrow> NaN | Num x \<Rightarrow> (case b of NaN \<Rightarrow> NaN
     | Num y \<Rightarrow> if y = 0 then NaN else Num (sgn x * (\<bar>x\<bar> mod \<bar>y\<bar>))))"

text \<open>The operator \<open><\<close>: false as soon as one side is \<open>NaN\<close>.\<close>

definition num_lt :: "number \<Rightarrow> number \<Rightarrow> bool" where
  "num_lt a b = (case a of NaN \<Rightarrow> False | Num x \<Rightarrow> (case b of NaN \<Rightarrow> False | Num y \<Rightarrow> x < y))"

text \<open>The operator \<open>||\<close> on numbers: the left side when it is truthy (neither 0 nor \<open>NaN\<close>).\<close>

definition num_or :: "number \<Rightarrow> number \<Rightarrow> number" where
  "num_or a b = (case a of NaN \<Rightarrow> b | Num x \<Rightarrow> if x = 0 then b else Num x)"

text \<open>The same operator with a left side that may be \<open>undefined\<close> (\<open>None\<close>).\<close>

definition undefined_or :: "int option \<Rightarrow> number \<Rightarrow> number" where
  "undefined_or a b = (case a of None \<Rightarrow> b | Some x \<Rightarrow> num_or (Num x) b)"

definition digit_char :: "nat \<Rightarrow> char" where
  "digit_char d = ''0123456789'' ! d"

fun digits_of :: "nat \<Rightarrow> string" where
  "digits_of n = (if n < 10 then [digit_char n] else digits_of (n div 10) @ [digit_char (n mod 10)])"

declare digits_of.simps [simp del]

text \<open>\<open>'' + n\<close>: the decimal text of a number.\<close>

definition number_toString :: "number \<Rightarrow> string" where
  "number_toString v = (case v of NaN \<Rightarrow> ''NaN''
     | Num i \<Rightarrow> if i < 0 then CHR ''-'' # digits_of (nat (- i)) else digits_of (nat i))"

definition starts_with :: "string \<Rightarrow> string \<Rightarrow> bool" where
  "starts_with p s = (take (length p) s = p)"

primrec indexOf_from :: "int \<Rightarrow> string \<Rightarrow> string \<Rightarrow> int" where
  "indexOf_from i [] p = (if p = [] then i else - 1)"
| "indexOf_from i (c # cs) p = (if starts_with p (c # cs) then i else indexOf_from (i + 1) cs p)"

text \<open>\<open>s.indexOf(p)\<close>: the first position of \<open>p\<close> in \<open>s\<close>, or \<open>-1\<close>.\<close>

definition indexOf :: "string \<Rightarrow> string \<Rightarrow> int" where
  "indexOf s p = indexOf_from 0 s p"

text \<open>White space as \<open>parseInt\<close> and the regular expression class \<open>\s\<close> see it.\<close>

definition isWhiteSpace :: "char \<Rightarrow> bool" where
  "isWhiteSpace c = ((of_char c :: nat) \<in> {9, 10, 11, 12, 13, 32, 160})"

definition digitValue :: "char \<Rightarrow> nat option" where
  "digitValue c = (let n = (of_char c :: nat) in
     if 48 \<le> n \<and> n \<le> 57 then Some (n - 48)
     else if 97 \<le> n \<and> n \<le> 122 then Some (n - 87)
     else if 65 \<le> n \<and> n \<le> 90 then Some (n - 55)
     else None)"

definition radixDigit :: "nat \<Rightarrow> char \<Rightarrow> bool" where
  "radixDigit R c = (case digitValue c of None \<Rightarrow> False | Some d \<Rightarrow> d < R)"

definition radixValue :: "nat \<Rightarrow> string \<Rightarrow> int" where
  "radixValue R Z = foldl (\<lambda>acc c. acc * int R + int (the (digitValue c))) 0 Z"

text \<open>
  \<open>parseInt(s)\<close> with no radix: leading white space is dropped, a sign is read, a
  prefix \<open>0x\<close> selects radix 16, and the longest run of digits is the value; with no digit
  the result is \<open>NaN\<close>. Whatever follows the digits is ignored.
\<close>

definition parseInt :: "string \<Rightarrow> number" where
  "parseInt inputString =
     (let S = dropWhile isWhiteSpace inputString;
          neg = starts_with ''-'' S;
          S1 = (if starts_with ''-'' S \<or> starts_with ''+'' S then tl S else S);
          hex = (starts_with ''0x'' S1 \<or> starts_with ''0X'' S1);
          R = (if hex then 16 else 10);
          S2 = (if hex then drop 2 S1 else S1);
          Z = takeWhile (radixDigit R) S2
      in if Z = [] then NaN
         else if neg then Num (- radixValue R Z) else Num (radixValue R Z))"

section \<open>UFTimezone\<close>

subsection \<open>Constants and the cached offset\<close>

definition LOG_PREFIX :: string where
  "LOG_PREFIX = ''TIMEZONE''"

text \<open>Cache life is 1 hour (in milliseconds).\<close>

definition CACHE_LIFE :: int where
  "CACHE_LIFE = 60 * 60 * 1000"

text \<open>Class \<open>Offset\<close>: an offset to UTC with the system time it was stored.\<close>

record Offset =
  offset :: number
  time :: int

text \<open>The constructor of \<open>Offset\<close>.\<close>

definition new_Offset :: Offset where
  "new_Offset = \<lparr>offset = Num 0, time = - CACHE_LIFE\<rparr>"

subsection \<open>Collaborators: the child process, the log, the clock\<close>

text \<open>
  The promise of \<open>execFileAsync\<close> either rejects (the process could not be started or
  exited with a non-zero code) or resolves with the texts of stdout and stderr.
\<close>

datatype exec_result = Rejected string | Resolved string string

datatype log_entry =
    Log_error string "string option" "string list"
  | Log_debug string string string Offset

text \<open>
  What one call finds outside the object: the value of \<open>UFSystem.time()\<close>, the outcome of
  running a file with arguments, and the host's time zone for a time value, in the two
  forms a \<open>Date\<close> reads it: \<open>timezoneOffset\<close> is what \<open>getTimezoneOffset\<close> gives, in whole
  minutes to add to local time to reach UTC; \<open>localTZA\<close> is the exact adjustment in
  milliseconds that is added to a time value to get the local time of \<open>getHours\<close>,
  \<open>getMinutes\<close> and \<open>getSeconds\<close>. The two differ in more than sign and unit where the
  zone's offset is not a whole number of minutes.
\<close>

record host =
  now :: int
  execFileAsync :: "string \<Rightarrow> string list \<Rightarrow> exec_result"
  timezoneOffset :: "int \<Rightarrow> int"
  localTZA :: "int \<Rightarrow> int"

text \<open>
  The object. \<open>m_log\<close> holds the entries the log has received; \<open>spawned\<close> records every
  call of \<open>execFileAsync\<close> made so far (file and arguments), so that "no process is
  started" can be stated.
\<close>

record UFTimezone =
  m_cache :: "string \<rightharpoonup> Offset"
  m_php :: string
  m_log :: "log_entry list"
  spawned :: "(string \<times> string list) list"

definition new_UFTimezone :: "string \<Rightarrow> log_entry list \<Rightarrow> UFTimezone" where
  "new_UFTimezone aPhp aLog = \<lparr>m_cache = Map.empty, m_php = aPhp, m_log = aLog, spawned = []\<rparr>"

subsection \<open>The generated summer offsets\<close>

text \<open>\<open>new Map(entries).get(k)\<close>: the value of the last entry with key \<open>k\<close>.\<close>

fun Map_get :: "('k \<times> 'v) list \<Rightarrow> 'k \<Rightarrow> 'v option" where
  "Map_get [] k = None"
| "Map_get ((a, b) # es) k =
     (case Map_get es k of Some v \<Rightarrow> Some v | None \<Rightarrow> if a = k then Some b else None)"

definition s_summerTimezones :: "(string \<times> int) list" where
  "s_summerTimezones = [
    (''Africa/Abidjan'', 0),
    (''Africa/Accra'', 0),
    (''Africa/Addis_Ababa'', 10800),
    (''Africa/Algiers'', 3600),
    (''Africa/Asmara'', 10800),
    (''Africa/Bamako'', 0),
    (''Africa/Bangui'', 3600),
    (''Africa/Banjul'', 0),
    (''Africa/Bissau'', 0),
    (''Africa/Blantyre'', 7200),
    (''Africa/Brazzaville'', 3600),
    (''Africa/Bujumbura'', 7200),
    (''Africa/Cairo'', 7200),
    (''Africa/Casablanca'', 3600),
    (''Africa/Ceuta'', 7200),
    (''Africa/Conakry'', 0),
    (''Africa/Dakar'', 0),
    (''Africa/Dar_es_Salaam'', 10800),
    (''Africa/Djibouti'', 10800),
    (''Africa/Douala'', 3600),
    (''Africa/El_Aaiun'', 3600),
    (''Africa/Freetown'', 0),
    (''Africa/Gaborone'', 7200),
    (''Africa/Harare'', 7200),
    (''Africa/Johannesburg'', 7200),
    (''Africa/Juba'', 10800),
    (''Africa/Kampala'', 10800),
    (''Africa/Khartoum'', 7200),
    (''Africa/Kigali'', 7200),
    (''Africa/Kinshasa'', 3600),
    (''Africa/Lagos'', 3600),
    (''Africa/Libreville'', 3600),
    (''Africa/Lome'', 0),
    (''Africa/Luanda'', 3600),
    (''Africa/Lubumbashi'', 7200),
    (''Africa/Lusaka'', 7200),
    (''Africa/Malabo'', 3600),
    (''Africa/Maputo'', 7200),
    (''Africa/Maseru'', 7200),
    (''Africa/Mbabane'', 7200),
    (''Africa/Mogadishu'', 10800),
    (''Africa/Monrovia'', 0),
    (''Africa/Nairobi'', 10800),
    (''Africa/Ndjamena'', 3600),
    (''Africa/Niamey'', 3600),
    (''Africa/Nouakchott'', 0),
    (''Africa/Ouagadougou'', 0),
    (''Africa/Porto-Novo'', 3600),
    (''Africa/Sao_Tome'', 0),
    (''Africa/Tripoli'', 7200),
    (''Africa/Tunis'', 3600),
    (''Africa/Windhoek'', 7200),
    (''America/Adak'', - 32400),
    (''America/Anchorage'', - 28800),
    (''America/Anguilla'', - 14400),
    (''America/Antigua'', - 14400),
    (''America/Araguaina'', - 10800),
    (''America/Argentina/Buenos_Aires'', - 10800),
    (''America/Argentina/Catamarca'', - 10800),
    (''America/Argentina/Cordoba'', - 10800),
    (''America/Argentina/Jujuy'', - 10800),
    (''America/Argentina/La_Rioja'', - 10800),
    (''America/Argentina/Mendoza'', - 10800),
    (''America/Argentina/Rio_Gallegos'', - 10800),
    (''America/Argentina/Salta'', - 10800),
    (''America/Argentina/San_Juan'', - 10800),
    (''America/Argentina/San_Luis'', - 10800),
    (''America/Argentina/Tucuman'', - 10800),
    (''America/Argentina/Ushuaia'', - 10800),
    (''America/Aruba'', - 14400),
    (''America/Asuncion'', - 14400),
    (''America/Atikokan'', - 18000),
    (''America/Bahia'', - 10800),
    (''America/Bahia_Banderas'', - 21600),
    (''America/Barbados'', - 14400),
    (''America/Belem'', - 10800),
    (''America/Belize'', - 21600),
    (''America/Blanc-Sablon'', - 14400),
    (''America/Boa_Vista'', - 14400),
    (''America/Bogota'', - 18000),
    (''America/Boise'', - 21600),
    (''America/Cambridge_Bay'', - 21600),
    (''America/Campo_Grande'', - 14400),
    (''America/Cancun'', - 18000),
    (''America/Caracas'', - 14400),
    (''America/Cayenne'', - 10800),
    (''America/Cayman'', - 18000),
    (''America/Chicago'', - 18000),
    (''America/Chihuahua'', - 25200),
    (''America/Costa_Rica'', - 21600),
    (''America/Creston'', - 25200),
    (''America/Cuiaba'', - 14400),
    (''America/Curacao'', - 14400),
    (''America/Danmarkshavn'', 0),
    (''America/Dawson'', - 25200),
    (''America/Dawson_Creek'', - 25200),
    (''America/Denver'', - 21600),
    (''America/Detroit'', - 14400),
    (''America/Dominica'', - 14400),
    (''America/Edmonton'', - 21600),
    (''America/Eirunepe'', - 18000),
    (''America/El_Salvador'', - 21600),
    (''America/Fort_Nelson'', - 25200),
    (''America/Fortaleza'', - 10800),
    (''America/Glace_Bay'', - 10800),
    (''America/Godthab'', - 7200),
    (''America/Goose_Bay'', - 10800),
    (''America/Grand_Turk'', - 14400),
    (''America/Grenada'', - 14400),
    (''America/Guadeloupe'', - 14400),
    (''America/Guatemala'', - 21600),
    (''America/Guayaquil'', - 18000),
    (''America/Guyana'', - 14400),
    (''America/Halifax'', - 10800),
    (''America/Havana'', - 14400),
    (''America/Hermosillo'', - 25200),
    (''America/Indiana/Indianapolis'', - 14400),
    (''America/Indiana/Knox'', - 18000),
    (''America/Indiana/Marengo'', - 14400),
    (''America/Indiana/Petersburg'', - 14400),
    (''America/Indiana/Tell_City'', - 18000),
    (''America/Indiana/Vevay'', - 14400),
    (''America/Indiana/Vincennes'', - 14400),
    (''America/Indiana/Winamac'', - 14400),
    (''America/Inuvik'', - 21600),
    (''America/Iqaluit'', - 14400),
    (''America/Jamaica'', - 18000),
    (''America/Juneau'', - 28800),
    (''America/Kentucky/Louisville'', - 14400),
    (''America/Kentucky/Monticello'', - 14400),
    (''America/Kralendijk'', - 14400),
    (''America/La_Paz'', - 14400),
    (''America/Lima'', - 18000),
    (''America/Los_Angeles'', - 25200),
    (''America/Lower_Princes'', - 14400),
    (''America/Maceio'', - 10800),
    (''America/Managua'', - 21600),
    (''America/Manaus'', - 14400),
    (''America/Marigot'', - 14400),
    (''America/Martinique'', - 14400),
    (''America/Matamoros'', - 18000),
    (''America/Mazatlan'', - 25200),
    (''America/Menominee'', - 18000),
    (''America/Merida'', - 21600),
    (''America/Metlakatla'', - 28800),
    (''America/Mexico_City'', - 21600),
    (''America/Miquelon'', - 7200),
    (''America/Moncton'', - 10800),
    (''America/Monterrey'', - 21600),
    (''America/Montevideo'', - 10800),
    (''America/Montserrat'', - 14400),
    (''America/Nassau'', - 14400),
    (''America/New_York'', - 14400),
    (''America/Nipigon'', - 14400),
    (''America/Nome'', - 28800),
    (''America/Noronha'', - 7200),
    (''America/North_Dakota/Beulah'', - 18000),
    (''America/North_Dakota/Center'', - 18000),
    (''America/North_Dakota/New_Salem'', - 18000),
    (''America/Ojinaga'', - 21600),
    (''America/Panama'', - 18000),
    (''America/Pangnirtung'', - 14400),
    (''America/Paramaribo'', - 10800),
    (''America/Phoenix'', - 25200),
    (''America/Port-au-Prince'', - 14400),
    (''America/Port_of_Spain'', - 14400),
    (''America/Porto_Velho'', - 14400),
    (''America/Puerto_Rico'', - 14400),
    (''America/Punta_Arenas'', - 10800),
    (''America/Rainy_River'', - 18000),
    (''America/Rankin_Inlet'', - 18000),
    (''America/Recife'', - 10800),
    (''America/Regina'', - 21600),
    (''America/Resolute'', - 18000),
    (''America/Rio_Branco'', - 18000),
    (''America/Santarem'', - 10800),
    (''America/Santiago'', - 10800),
    (''America/Santo_Domingo'', - 14400),
    (''America/Sao_Paulo'', - 10800),
    (''America/Scoresbysund'', 0),
    (''America/Sitka'', - 28800),
    (''America/St_Barthelemy'', - 14400),
    (''America/St_Johns'', - 9000),
    (''America/St_Kitts'', - 14400),
    (''America/St_Lucia'', - 14400),
    (''America/St_Thomas'', - 14400),
    (''America/St_Vincent'', - 14400),
    (''America/Swift_Current'', - 21600),
    (''America/Tegucigalpa'', - 21600),
    (''America/Thule'', - 10800),
    (''America/Thunder_Bay'', - 14400),
    (''America/Tijuana'', - 25200),
    (''America/Toronto'', - 14400),
    (''America/Tortola'', - 14400),
    (''America/Vancouver'', - 25200),
    (''America/Whitehorse'', - 25200),
    (''America/Winnipeg'', - 18000),
    (''America/Yakutat'', - 28800),
    (''America/Yellowknife'', - 21600),
    (''Antarctica/Casey'', 28800),
    (''Antarctica/Davis'', 25200),
    (''Antarctica/DumontDUrville'', 36000),
    (''Antarctica/Macquarie'', 39600),
    (''Antarctica/Mawson'', 18000),
    (''Antarctica/McMurdo'', 46800),
    (''Antarctica/Palmer'', - 10800),
    (''Antarctica/Rothera'', - 10800),
    (''Antarctica/Syowa'', 10800),
    (''Antarctica/Troll'', 7200),
    (''Antarctica/Vostok'', 21600),
    (''Arctic/Longyearbyen'', 7200),
    (''Asia/Aden'', 10800),
    (''Asia/Almaty'', 21600),
    (''Asia/Amman'', 10800),
    (''Asia/Anadyr'', 43200),
    (''Asia/Aqtau'', 18000),
    (''Asia/Aqtobe'', 18000),
    (''Asia/Ashgabat'', 18000),
    (''Asia/Atyrau'', 18000),
    (''Asia/Baghdad'', 10800),
    (''Asia/Bahrain'', 10800),
    (''Asia/Baku'', 14400),
    (''Asia/Bangkok'', 25200),
    (''Asia/Barnaul'', 25200),
    (''Asia/Beirut'', 10800),
    (''Asia/Bishkek'', 21600),
    (''Asia/Brunei'', 28800),
    (''Asia/Chita'', 32400),
    (''Asia/Choibalsan'', 28800),
    (''Asia/Colombo'', 19800),
    (''Asia/Damascus'', 10800),
    (''Asia/Dhaka'', 21600),
    (''Asia/Dili'', 32400),
    (''Asia/Dubai'', 14400),
    (''Asia/Dushanbe'', 18000),
    (''Asia/Famagusta'', 10800),
    (''Asia/Gaza'', 10800),
    (''Asia/Hebron'', 10800),
    (''Asia/Ho_Chi_Minh'', 25200),
    (''Asia/Hong_Kong'', 28800),
    (''Asia/Hovd'', 25200),
    (''Asia/Irkutsk'', 28800),
    (''Asia/Jakarta'', 25200),
    (''Asia/Jayapura'', 32400),
    (''Asia/Jerusalem'', 10800),
    (''Asia/Kabul'', 16200),
    (''Asia/Kamchatka'', 43200),
    (''Asia/Karachi'', 18000),
    (''Asia/Kathmandu'', 20700),
    (''Asia/Khandyga'', 32400),
    (''Asia/Kolkata'', 19800),
    (''Asia/Krasnoyarsk'', 25200),
    (''Asia/Kuala_Lumpur'', 28800),
    (''Asia/Kuching'', 28800),
    (''Asia/Kuwait'', 10800),
    (''Asia/Macau'', 28800),
    (''Asia/Magadan'', 39600),
    (''Asia/Makassar'', 28800),
    (''Asia/Manila'', 28800),
    (''Asia/Muscat'', 14400),
    (''Asia/Nicosia'', 10800),
    (''Asia/Novokuznetsk'', 25200),
    (''Asia/Novosibirsk'', 25200),
    (''Asia/Omsk'', 21600),
    (''Asia/Oral'', 18000),
    (''Asia/Phnom_Penh'', 25200),
    (''Asia/Pontianak'', 25200),
    (''Asia/Pyongyang'', 32400),
    (''Asia/Qatar'', 10800),
    (''Asia/Qostanay'', 21600),
    (''Asia/Qyzylorda'', 18000),
    (''Asia/Riyadh'', 10800),
    (''Asia/Sakhalin'', 39600),
    (''Asia/Samarkand'', 18000),
    (''Asia/Seoul'', 32400),
    (''Asia/Shanghai'', 28800),
    (''Asia/Singapore'', 28800),
    (''Asia/Srednekolymsk'', 39600),
    (''Asia/Taipei'', 28800),
    (''Asia/Tashkent'', 18000),
    (''Asia/Tbilisi'', 14400),
    (''Asia/Tehran'', 16200),
    (''Asia/Thimphu'', 21600),
    (''Asia/Tokyo'', 32400),
    (''Asia/Tomsk'', 25200),
    (''Asia/Ulaanbaatar'', 28800),
    (''Asia/Urumqi'', 21600),
    (''Asia/Ust-Nera'', 36000),
    (''Asia/Vientiane'', 25200),
    (''Asia/Vladivostok'', 36000),
    (''Asia/Yakutsk'', 32400),
    (''Asia/Yangon'', 23400),
    (''Asia/Yekaterinburg'', 18000),
    (''Asia/Yerevan'', 14400),
    (''Atlantic/Azores'', 0),
    (''Atlantic/Bermuda'', - 10800),
    (''Atlantic/Canary'', 3600),
    (''Atlantic/Cape_Verde'', - 3600),
    (''Atlantic/Faroe'', 3600),
    (''Atlantic/Madeira'', 3600),
    (''Atlantic/Reykjavik'', 0),
    (''Atlantic/South_Georgia'', - 7200),
    (''Atlantic/St_Helena'', 0),
    (''Atlantic/Stanley'', - 10800),
    (''Australia/Adelaide'', 37800),
    (''Australia/Brisbane'', 36000),
    (''Australia/Broken_Hill'', 37800),
    (''Australia/Currie'', 39600),
    (''Australia/Darwin'', 34200),
    (''Australia/Eucla'', 31500),
    (''Australia/Hobart'', 39600),
    (''Australia/Lindeman'', 36000),
    (''Australia/Lord_Howe'', 39600),
    (''Australia/Melbourne'', 39600),
    (''Australia/Perth'', 28800),
    (''Australia/Sydney'', 39600),
    (''Europe/Amsterdam'', 7200),
    (''Europe/Andorra'', 7200),
    (''Europe/Astrakhan'', 14400),
    (''Europe/Athens'', 10800),
    (''Europe/Belgrade'', 7200),
    (''Europe/Berlin'', 7200),
    (''Europe/Bratislava'', 7200),
    (''Europe/Brussels'', 7200),
    (''Europe/Bucharest'', 10800),
    (''Europe/Budapest'', 7200),
    (''Europe/Busingen'', 7200),
    (''Europe/Chisinau'', 10800),
    (''Europe/Copenhagen'', 7200),
    (''Europe/Dublin'', 3600),
    (''Europe/Gibraltar'', 7200),
    (''Europe/Guernsey'', 3600),
    (''Europe/Helsinki'', 10800),
    (''Europe/Isle_of_Man'', 3600),
    (''Europe/Istanbul'', 10800),
    (''Europe/Jersey'', 3600),
    (''Europe/Kaliningrad'', 7200),
    (''Europe/Kiev'', 10800),
    (''Europe/Kirov'', 10800),
    (''Europe/Lisbon'', 3600),
    (''Europe/Ljubljana'', 7200),
    (''Europe/London'', 3600),
    (''Europe/Luxembourg'', 7200),
    (''Europe/Madrid'', 7200),
    (''Europe/Malta'', 7200),
    (''Europe/Mariehamn'', 10800),
    (''Europe/Minsk'', 10800),
    (''Europe/Monaco'', 7200),
    (''Europe/Moscow'', 10800),
    (''Europe/Oslo'', 7200),
    (''Europe/Paris'', 7200),
    (''Europe/Podgorica'', 7200),
    (''Europe/Prague'', 7200),
    (''Europe/Riga'', 10800),
    (''Europe/Rome'', 7200),
    (''Europe/Samara'', 14400),
    (''Europe/San_Marino'', 7200),
    (''Europe/Sarajevo'', 7200),
    (''Europe/Saratov'', 14400),
    (''Europe/Simferopol'', 10800),
    (''Europe/Skopje'', 7200),
    (''Europe/Sofia'', 10800),
    (''Europe/Stockholm'', 7200),
    (''Europe/Tallinn'', 10800),
    (''Europe/Tirane'', 7200),
    (''Europe/Ulyanovsk'', 14400),
    (''Europe/Uzhgorod'', 10800),
    (''Europe/Vaduz'', 7200),
    (''Europe/Vatican'', 7200),
    (''Europe/Vienna'', 7200),
    (''Europe/Vilnius'', 10800),
    (''Europe/Volgograd'', 14400),
    (''Europe/Warsaw'', 7200),
    (''Europe/Zagreb'', 7200),
    (''Europe/Zaporozhye'', 10800),
    (''Europe/Zurich'', 7200),
    (''Indian/Antananarivo'', 10800),
    (''Indian/Chagos'', 21600),
    (''Indian/Christmas'', 25200),
    (''Indian/Cocos'', 23400),
    (''Indian/Comoro'', 10800),
    (''Indian/Kerguelen'', 18000),
    (''Indian/Mahe'', 14400),
    (''Indian/Maldives'', 18000),
    (''Indian/Mauritius'', 14400),
    (''Indian/Mayotte'', 10800),
    (''Indian/Reunion'', 14400),
    (''Pacific/Apia'', 50400),
    (''Pacific/Auckland'', 46800),
    (''Pacific/Bougainville'', 39600),
    (''Pacific/Chatham'', 49500),
    (''Pacific/Chuuk'', 36000),
    (''Pacific/Easter'', - 18000),
    (''Pacific/Efate'', 39600),
    (''Pacific/Enderbury'', 46800),
    (''Pacific/Fakaofo'', 46800),
    (''Pacific/Fiji'', 43200),
    (''Pacific/Funafuti'', 43200),
    (''Pacific/Galapagos'', - 21600),
    (''Pacific/Gambier'', - 32400),
    (''Pacific/Guadalcanal'', 39600),
    (''Pacific/Guam'', 36000),
    (''Pacific/Honolulu'', - 36000),
    (''Pacific/Kiritimati'', 50400),
    (''Pacific/Kosrae'', 39600),
    (''Pacific/Kwajalein'', 43200),
    (''Pacific/Majuro'', 43200),
    (''Pacific/Marquesas'', - 34200),
    (''Pacific/Midway'', - 39600),
    (''Pacific/Nauru'', 43200),
    (''Pacific/Niue'', - 39600),
    (''Pacific/Norfolk'', 39600),
    (''Pacific/Noumea'', 39600),
    (''Pacific/Pago_Pago'', - 39600),
    (''Pacific/Palau'', 32400),
    (''Pacific/Pitcairn'', - 28800),
    (''Pacific/Pohnpei'', 39600),
    (''Pacific/Port_Moresby'', 36000),
    (''Pacific/Rarotonga'', - 36000),
    (''Pacific/Saipan'', 36000),
    (''Pacific/Tahiti'', - 36000),
    (''Pacific/Tarawa'', 43200),
    (''Pacific/Tongatapu'', 46800),
    (''Pacific/Wake'', 43200),
    (''Pacific/Wallis'', 43200),
    (''UTC'', 0)]"

subsection \<open>getOffset\<close>

definition apostrophe :: string where
  "apostrophe = [CHR 0x27]"

definition php_script :: "string \<Rightarrow> string" where
  "php_script aPhpTimezone =
     ''echo (new DateTimeZone('' @ apostrophe @ aPhpTimezone @ apostrophe
       @ ''))->getOffset(new DateTime('' @ apostrophe @ ''now'' @ apostrophe
       @ '', new DateTimeZone('' @ apostrophe @ ''UTC'' @ apostrophe @ '')));''"

text \<open>
  The difference to UTC in seconds, with the object after the call. The entry read from
  the cache (or a new \<open>Offset\<close>) is returned while it has not expired; otherwise php is
  run. With empty stderr the parsed stdout is stored in the entry and the entry is put
  in the cache; with text on stderr, or when the promise rejects, an error is logged
  and the generated summer value is returned.
\<close>

definition getOffset :: "host \<Rightarrow> string \<Rightarrow> UFTimezone \<Rightarrow> number \<times> UFTimezone" where
  "getOffset h aPhpTimezone this =
     (let time' = now h;
          offset' = (case m_cache this aPhpTimezone of Some e \<Rightarrow> e | None \<Rightarrow> new_Offset)
      in if time offset' + CACHE_LIFE > time' then (offset offset', this)
         else
           let args = php_script aPhpTimezone;
               argv = [''-n'', ''-r'', args];
               this1 = this\<lparr>spawned := spawned this @ [(m_php this, argv)]\<rparr>;
               generated = undefined_or (Map_get s_summerTimezones aPhpTimezone) (Num 0)
           in case execFileAsync h (m_php this) argv of
                Resolved stdout stderr \<Rightarrow>
                  if stderr \<noteq> [] then
                    (generated, this1\<lparr>m_log := m_log this1 @
                       [Log_error LOG_PREFIX None [''getOffset'', stderr, aPhpTimezone]]\<rparr>)
                  else
                    let stored = offset'\<lparr>offset := parseInt stdout, time := time'\<rparr>
                    in (offset stored,
                        this1\<lparr>m_log := m_log this1 @
                                 [Log_debug LOG_PREFIX ''getOffset'' aPhpTimezone stored],
                              m_cache := (m_cache this1)(aPhpTimezone \<mapsto> stored)\<rparr>)
              | Rejected error \<Rightarrow>
                  (generated, this1\<lparr>m_log := m_log this1 @
                     [Log_error LOG_PREFIX (Some error) [''getOffset'', aPhpTimezone]]\<rparr>))"

text \<open>True if the time zone uses 24 hr formatting.\<close>

definition is24 :: "string \<Rightarrow> bool" where
  "is24 aPhpTimezone = (indexOf aPhpTimezone ''America'' < 0 \<and> indexOf aPhpTimezone ''London'' < 0)"

subsection \<open>Dates\<close>

text \<open>
  A \<open>Date\<close> holds a time value in milliseconds, or is invalid (\<open>None\<close>). \<open>new Date(v)\<close>
  clips: \<open>NaN\<close> and values beyond 8.64e15 in magnitude give an invalid date. The local
  fields are read from the time value plus the host's adjustment for it.
\<close>

type_synonym Date = "int option"

definition new_Date :: "number \<Rightarrow> Date" where
  "new_Date v = (case v of NaN \<Rightarrow> None
     | Num t \<Rightarrow> if \<bar>t\<bar> \<le> 8640000000000000 then Some t else None)"

definition getTime :: "Date \<Rightarrow> number" where
  "getTime d = (case d of None \<Rightarrow> NaN | Some t \<Rightarrow> Num t)"

definition getTimezoneOffset :: "host \<Rightarrow> Date \<Rightarrow> number" where
  "getTimezoneOffset h d = (case d of None \<Rightarrow> NaN | Some t \<Rightarrow> Num (timezoneOffset h t))"

definition localTime :: "host \<Rightarrow> int \<Rightarrow> int" where
  "localTime h t = t + localTZA h t"

definition getHours :: "host \<Rightarrow> Date \<Rightarrow> number" where
  "getHours h d = (case d of None \<Rightarrow> NaN | Some t \<Rightarrow> Num ((localTime h t div 3600000) mod 24))"

definition getMinutes :: "host \<Rightarrow> Date \<Rightarrow> number" where
  "getMinutes h d = (case d of None \<Rightarrow> NaN | Some t \<Rightarrow> Num ((localTime h t div 60000) mod 60))"

definition getSeconds :: "host \<Rightarrow> Date \<Rightarrow> number" where
  "getSeconds h d = (case d of None \<Rightarrow> NaN | Some t \<Rightarrow> Num ((localTime h t div 1000) mod 60))"

subsection \<open>Conversions between server and zone dates\<close>

text \<open>
  Add the difference from the server's time zone (in minutes) to get UTC, then add the
  difference (in seconds) to the zone.
\<close>

definition getLocalFromServerDate :: "host \<Rightarrow> Date \<Rightarrow> string \<Rightarrow> UFTimezone \<Rightarrow> Date \<times> UFTimezone" where
  "getLocalFromServerDate h aServerDate aPhpTimezone this =
     (let r = getOffset h aPhpTimezone this
      in (new_Date (num_add (num_add (getTime aServerDate)
                                     (num_mul (Num 60000) (getTimezoneOffset h aServerDate)))
                            (num_mul (Num 1000) (fst r))),
          snd r))"

text \<open>
  Subtract the difference (in seconds) of the zone to get UTC, then subtract the
  difference (in minutes) for the server's time zone.
\<close>

definition getServerFromLocalDate :: "host \<Rightarrow> Date \<Rightarrow> string \<Rightarrow> UFTimezone \<Rightarrow> Date \<times> UFTimezone" where
  "getServerFromLocalDate h aLocalDate aPhpTimezone this =
     (let r = getOffset h aPhpTimezone this
      in (new_Date (num_sub (num_sub (getTime aLocalDate) (num_mul (Num 1000) (fst r)))
                            (num_mul (Num 60000) (getTimezoneOffset h aLocalDate))),
          snd r))"

definition getUtcFromLocalDate :: "host \<Rightarrow> Date \<Rightarrow> string \<Rightarrow> UFTimezone \<Rightarrow> Date \<times> UFTimezone" where
  "getUtcFromLocalDate h aLocalDate aPhpTimezone this =
     (let r = getOffset h aPhpTimezone this
      in (new_Date (num_sub (getTime aLocalDate) (num_mul (Num 1000) (fst r))), snd r))"

subsection \<open>getLocalTime\<close>

text \<open>
  Modelled from the spec: \<open>UFText.twoDigits\<close> comes from the package ts-general-lib and is
  not part of the sources; the specification says that minutes and seconds are always two
  digits, zero-padded.
\<close>

definition twoDigits :: "number \<Rightarrow> string" where
  "twoDigits n = (if num_lt n (Num 10) then ''0'' @ number_toString n else number_toString n)"

text \<open>
  The formatting part of \<open>getLocalTime\<close>, from the local date on: \<open>H:mm\<close> or \<open>H:mm:ss\<close>,
  followed by am or pm when the zone does not use 24 hr formatting.
\<close>

definition formatTime :: "host \<Rightarrow> Date \<Rightarrow> bool \<Rightarrow> bool \<Rightarrow> string" where
  "formatTime h localDate is24' anIncludeSeconds =
     (let hours = (if is24' then getHours h localDate
                   else num_or (num_rem (getHours h localDate) (Num 12)) (Num 12));
          minutes = '':'' @ twoDigits (getMinutes h localDate);
          seconds = (if anIncludeSeconds then '':'' @ twoDigits (getSeconds h localDate) else '''');
          postfix = (if is24' then ''''
                     else if num_lt (getHours h localDate) (Num 12) then '' am'' else '' pm'')
      in '''' @ number_toString hours @ minutes @ seconds @ postfix)"

definition getLocalTime :: "host \<Rightarrow> Date \<Rightarrow> string \<Rightarrow> bool \<Rightarrow> UFTimezone \<Rightarrow> string \<times> UFTimezone" where
  "getLocalTime h aServerDate aPhpTimezone anIncludeSeconds this =
     (let r = getLocalFromServerDate h aServerDate aPhpTimezone this
      in (formatTime h (fst r) (is24 aPhpTimezone) anIncludeSeconds, snd r))"


section \<open>UFPhp\<close>

subsection \<open>Regular expressions\<close>

text \<open>
  The patterns of \<open>parsePhpConfig\<close> use literal characters, the dot, \<open>\s\<close>, character
  classes, grouping, alternation, the greedy quantifiers \<open>*\<close> and \<open>+\<close>, the lazy
  quantifier \<open>*?\<close> and the assertion \<open>$\<close>. Groups are only used for grouping: no
  replacement refers to a capture.
\<close>

datatype regex =
    Chr char
  | Dot
  | Space
  | OneOf string
  | NoneOf string
  | Seq regex regex
  | Alt regex regex
  | Star regex
  | Lazy regex
  | End

text \<open>\<open>r+\<close> is one \<open>r\<close> followed by \<open>r*\<close>.\<close>

definition Plus :: "regex \<Rightarrow> regex" where
  "Plus r = Seq r (Star r)"

definition arrow :: regex where
  "arrow = Seq (Chr CHR ''='') (Chr CHR ''>'')"

text \<open>
  With the flag \<open>i\<close> characters are compared after mapping to upper case; for code units
  below 256 that changes the letters a to z and the accented letters from 224 to 254
  other than 247.
\<close>

definition Canonicalize :: "bool \<Rightarrow> char \<Rightarrow> char" where
  "Canonicalize ignoreCase c =
     (let n = (of_char c :: nat)
      in if ignoreCase \<and> ((97 \<le> n \<and> n \<le> 122) \<or> (224 \<le> n \<and> n \<le> 254 \<and> n \<noteq> 247))
         then char_of (n - 32) else c)"

definition isLineTerminator :: "char \<Rightarrow> bool" where
  "isLineTerminator c = ((of_char c :: nat) \<in> {10, 13})"

definition in_class :: "bool \<Rightarrow> string \<Rightarrow> char \<Rightarrow> bool" where
  "in_class ignoreCase cs x = (\<exists>a \<in> set cs. Canonicalize ignoreCase a = Canonicalize ignoreCase x)"

text \<open>
  Backtracking as a list of successes: \<open>ends i r s\<close> lists what is left of \<open>s\<close> after each
  way \<open>r\<close> can match a prefix of \<open>s\<close>, in the order in which the matcher tries them. The
  head of the list is the match that is taken. An iteration of \<open>*\<close> or \<open>*?\<close> that consumes
  nothing is rejected.
\<close>

function ends :: "bool \<Rightarrow> regex \<Rightarrow> string \<Rightarrow> string list" where
  "ends i (Chr c) s =
     (case s of [] \<Rightarrow> [] | x # xs \<Rightarrow> if Canonicalize i x = Canonicalize i c then [xs] else [])"
| "ends i Dot s = (case s of [] \<Rightarrow> [] | x # xs \<Rightarrow> if isLineTerminator x then [] else [xs])"
| "ends i Space s = (case s of [] \<Rightarrow> [] | x # xs \<Rightarrow> if isWhiteSpace x then [xs] else [])"
| "ends i (OneOf cs) s = (case s of [] \<Rightarrow> [] | x # xs \<Rightarrow> if in_class i cs x then [xs] else [])"
| "ends i (NoneOf cs) s = (case s of [] \<Rightarrow> [] | x # xs \<Rightarrow> if in_class i cs x then [] else [xs])"
| "ends i (Seq r1 r2) s = concat (map (ends i r2) (ends i r1 s))"
| "ends i (Alt r1 r2) s = ends i r1 s @ ends i r2 s"
| "ends i (Star r) s =
     concat (map (ends i (Star r)) (filter (\<lambda>s'. length s' < length s) (ends i r s))) @ [s]"
| "ends i (Lazy r) s =
     s # concat (map (ends i (Lazy r)) (filter (\<lambda>s'. length s' < length s) (ends i r s)))"
| "ends i End s = (if s = [] then [s] else [])"
  by pat_completeness auto
termination
  by (relation "measures [\<lambda>(i, r, s). size r, \<lambda>(i, r, s). length s]") auto

text \<open>
  \<open>s.replace(/r/g, f)\<close>: the matcher is tried at each position from the left; a match is
  replaced by \<open>f\<close> of the matched text and the search goes on behind it (one character
  further after an empty match).
\<close>

function replace_all :: "bool \<Rightarrow> regex \<Rightarrow> (string \<Rightarrow> string) \<Rightarrow> string \<Rightarrow> string" where
  "replace_all i r f s =
     (case ends i r s of
        [] \<Rightarrow> (case s of [] \<Rightarrow> [] | c # cs \<Rightarrow> c # replace_all i r f cs)
      | rest # _ \<Rightarrow>
          if length rest < length s
          then f (take (length s - length rest) s) @ replace_all i r f rest
          else f [] @ (case s of [] \<Rightarrow> [] | c # cs \<Rightarrow> c # replace_all i r f cs))"
  by pat_completeness auto
termination
  by (relation "measure (\<lambda>(i, r, f, s). length s)") auto

declare replace_all.simps [simp del]

text \<open>\<open>s.replace(/r/, f)\<close>: only the first match is replaced.\<close>

fun replace_first :: "bool \<Rightarrow> regex \<Rightarrow> (string \<Rightarrow> string) \<Rightarrow> string \<Rightarrow> string" where
  "replace_first i r f [] = (case ends i r [] of [] \<Rightarrow> [] | rest # _ \<Rightarrow> f [])"
| "replace_first i r f (c # cs) =
     (case ends i r (c # cs) of
        [] \<Rightarrow> c # replace_first i r f cs
      | rest # _ \<Rightarrow> f (take (length (c # cs) - length rest) (c # cs)) @ rest)"

text \<open>\<open>s.replace(p, t)\<close> with a string \<open>p\<close>: the first occurrence of \<open>p\<close> becomes \<open>t\<close>.\<close>

fun replace_string :: "string \<Rightarrow> string \<Rightarrow> string \<Rightarrow> string" where
  "replace_string p t [] = (if p = [] then t else [])"
| "replace_string p t (c # cs) =
     (if starts_with p (c # cs) then t @ drop (length p) (c # cs)
      else c # replace_string p t cs)"

subsection \<open>The rewriting of the php text\<close>

definition always :: "string \<Rightarrow> string \<Rightarrow> string" where
  "always t x = t"

text \<open>The patterns, in the order of the source.\<close>

definition block_comment :: regex where
  "block_comment = Seq (Chr CHR ''/'') (Seq (Chr CHR ''*'')
     (Seq (Lazy (Alt Dot (OneOf [CHR 0x0D, CHR 0x0A])))
          (Seq (Plus (Chr CHR ''*'')) (Chr CHR ''/''))))"

definition line_comment :: regex where
  "line_comment = Seq (Chr CHR ''/'') (Seq (Chr CHR ''/'') (Plus Dot))"

definition use_statement :: regex where
  "use_statement = Seq (Chr CHR ''u'') (Seq (Chr CHR ''s'') (Seq (Chr CHR ''e'')
     (Seq (Star Dot) (Chr CHR '';''))))"

definition unquoted_value :: regex where
  "unquoted_value = Seq (arrow) (Seq (Plus Space)
     (Seq (Seq (NoneOf (''0123456789'' @ [CHR 0x22, CHR 0x27])) (Star Dot)) (Chr CHR '','')))"

definition arrow_space :: regex where
  "arrow_space = Seq (arrow) (Plus Space)"

definition final_comma :: regex where
  "final_comma = Seq (Chr CHR '','') End"

definition dangling_comma :: regex where
  "dangling_comma = Seq (Chr CHR '','')
     (Seq (Lazy (Alt Space (OneOf [CHR 0x0D, CHR 0x0A]))) (Chr CHR ''}''))"

text \<open>
  The function given to the fifth replacement: the value after \<open>=>\<close> without the comma
  gets single quotes, with a backslash before each single quote in it, unless it is
  true, false or null.
\<close>

definition quote_value :: "string \<Rightarrow> string" where
  "quote_value x0 =
     (let x1 = replace_first False arrow_space (always '''') x0;
          x2 = replace_first False final_comma (always '''') x1;
          x3 = (if x2 \<noteq> ''true'' \<and> x2 \<noteq> ''false'' \<and> x2 \<noteq> ''null''
                then [CHR 0x27] @ replace_all False (Chr (CHR 0x27)) (always [CHR 0x5C, CHR 0x27]) x2
                       @ [CHR 0x27]
                else x2)
      in ''=> '' @ x3 @ '','')"

text \<open>The text that \<open>parsePhpConfig\<close> hands to \<open>JSON.parse\<close>.\<close>

definition json_text :: "string \<Rightarrow> string" where
  "json_text config0 =
     (let config1 = replace_all True block_comment (always '''') config0;
          config2 = replace_all True line_comment (always '''') config1;
          config3 = replace_all True use_statement (always '''') config2;
          config4 = replace_string '';'' '''' (replace_string ''return '' ''''
                      (replace_string ''<?php'' '''' config3));
          config5 = replace_all True unquoted_value quote_value config4;
          config6 = replace_all True (arrow) (always '':'')
                      (replace_all True (Chr CHR '']'') (always ''}'')
                        (replace_all True (Chr CHR ''['') (always ''{'') config5));
          config7 = replace_all True dangling_comma (always ''}'') config6;
          config8 = replace_all True (Chr (CHR 0x27)) (always [CHR 0x22]) config7
      in config8)"


subsection \<open>JSON.parse\<close>

text \<open>
  A parsed value. A number keeps its digits and its decimal exponent (\<open>JNumber m e\<close> is
  \<open>m\<close> times ten to the power \<open>e\<close>); a string is its list of code units; an object keeps
  its members in the order of the text.
\<close>

datatype json =
    JNull
  | JBool bool
  | JNumber int int
  | JString "nat list"
  | JArray "json list"
  | JObject "(nat list \<times> json) list"

definition units :: "string \<Rightarrow> nat list" where
  "units s = map of_char s"

definition isJsonSpace :: "char \<Rightarrow> bool" where
  "isJsonSpace c = ((of_char c :: nat) \<in> {9, 10, 13, 32})"

definition skip_ws :: "string \<Rightarrow> string" where
  "skip_ws s = dropWhile isJsonSpace s"

definition isDigit :: "char \<Rightarrow> bool" where
  "isDigit c = (48 \<le> (of_char c :: nat) \<and> (of_char c :: nat) \<le> 57)"

definition decimal :: "string \<Rightarrow> int" where
  "decimal ds = foldl (\<lambda>acc c. acc * 10 + (int (of_char c) - 48)) 0 ds"

definition hex4 :: "char \<Rightarrow> char \<Rightarrow> char \<Rightarrow> char \<Rightarrow> nat option" where
  "hex4 a b c d =
     (if radixDigit 16 a \<and> radixDigit 16 b \<and> radixDigit 16 c \<and> radixDigit 16 d
      then Some (nat (radixValue 16 [a, b, c, d])) else None)"

definition escape :: "char \<Rightarrow> nat option" where
  "escape e =
     (if e = CHR 0x22 then Some 34 else if e = CHR 0x5C then Some 92
      else if e = CHR ''/'' then Some 47 else if e = CHR ''b'' then Some 8
      else if e = CHR ''f'' then Some 12 else if e = CHR ''n'' then Some 10
      else if e = CHR ''r'' then Some 13 else if e = CHR ''t'' then Some 9
      else None)"

text \<open>The characters of a string, from behind the opening quote to the closing one.\<close>

fun parse_chars :: "string \<Rightarrow> (nat list \<times> string) option" where
  "parse_chars [] = None"
| "parse_chars (c # cs) =
     (if c = CHR 0x22 then Some ([], cs)
      else if c = CHR 0x5C then
        (case cs of
           [] \<Rightarrow> None
         | e # r \<Rightarrow>
             if e = CHR ''u'' then
               (case r of
                  h1 # h2 # h3 # h4 # r' \<Rightarrow>
                    (case hex4 h1 h2 h3 h4 of
                       None \<Rightarrow> None
                     | Some n \<Rightarrow> map_option (apfst ((#) n)) (parse_chars r'))
                | _ \<Rightarrow> None)
             else
               (case escape e of
                  None \<Rightarrow> None
                | Some n \<Rightarrow> map_option (apfst ((#) n)) (parse_chars r)))
      else if (of_char c :: nat) < 32 then None
      else map_option (apfst ((#) (of_char c))) (parse_chars cs))"

text \<open>
  A number: an optional minus, then 0 or a run of digits that does not start with 0, an
  optional fraction and an optional exponent.
\<close>

definition parse_number :: "string \<Rightarrow> (json \<times> string) option" where
  "parse_number s =
     (let neg = starts_with ''-'' s;
          s1 = (if neg then tl s else s);
          ip = (if starts_with ''0'' s1 then ''0'' else takeWhile isDigit s1);
          s2 = drop (length ip) s1;
          hasFrac = starts_with ''.'' s2;
          fp = (if hasFrac then takeWhile isDigit (tl s2) else []);
          s3 = (if hasFrac then drop (length fp) (tl s2) else s2);
          hasExp = (starts_with ''e'' s3 \<or> starts_with ''E'' s3);
          s4 = (if hasExp then tl s3 else s3);
          eneg = (hasExp \<and> starts_with ''-'' s4);
          s5 = (if hasExp \<and> (starts_with ''-'' s4 \<or> starts_with ''+'' s4) then tl s4 else s4);
          ep = (if hasExp then takeWhile isDigit s5 else []);
          s6 = drop (length ep) s5;
          m = decimal (ip @ fp);
          e = (if eneg then - decimal ep else decimal ep) - int (length fp)
      in if ip = [] \<or> (hasFrac \<and> fp = []) \<or> (hasExp \<and> ep = []) then None
         else Some (JNumber (if neg then - m else m) e, s6))"

text \<open>
  The grammar of values. Every recursive call is on a shorter text, which the definition
  checks before the call.
\<close>

function parse_value :: "string \<Rightarrow> (json \<times> string) option"
  and parse_elements :: "json list \<Rightarrow> string \<Rightarrow> (json \<times> string) option"
  and parse_members :: "(nat list \<times> json) list \<Rightarrow> string \<Rightarrow> (json \<times> string) option"
where
  "parse_value s =
     (case skip_ws s of
        [] \<Rightarrow> None
      | c # r \<Rightarrow>
          if c = CHR ''{'' then
            (case skip_ws r of
               [] \<Rightarrow> None
             | c' # r' \<Rightarrow>
                 if c' = CHR ''}'' then Some (JObject [], r')
                 else if length r < length s then parse_members [] r else None)
          else if c = CHR ''['' then
            (case skip_ws r of
               [] \<Rightarrow> None
             | c' # r' \<Rightarrow>
                 if c' = CHR '']'' then Some (JArray [], r')
                 else if length r < length s then parse_elements [] r else None)
          else if c = CHR 0x22 then map_option (apfst JString) (parse_chars r)
          else if starts_with ''true'' (c # r) then Some (JBool True, drop 4 (c # r))
          else if starts_with ''false'' (c # r) then Some (JBool False, drop 5 (c # r))
          else if starts_with ''null'' (c # r) then Some (JNull, drop 4 (c # r))
          else parse_number (c # r))"
| "parse_elements acc s =
     (case parse_value s of
        None \<Rightarrow> None
      | Some (v, r) \<Rightarrow>
          (case skip_ws r of
             [] \<Rightarrow> None
           | c # r' \<Rightarrow>
               if c = CHR '','' then
                 (if length r' < length s then parse_elements (acc @ [v]) r' else None)
               else if c = CHR '']'' then Some (JArray (acc @ [v]), r')
               else None))"
| "parse_members acc s =
     (case skip_ws s of
        [] \<Rightarrow> None
      | q # r \<Rightarrow>
          if q \<noteq> CHR 0x22 then None
          else
            (case parse_chars r of
               None \<Rightarrow> None
             | Some (k, r1) \<Rightarrow>
                 (case skip_ws r1 of
                    [] \<Rightarrow> None
                  | colon # r2 \<Rightarrow>
                      if colon \<noteq> CHR '':'' \<or> \<not> length r2 < length s then None
                      else
                        (case parse_value r2 of
                           None \<Rightarrow> None
                         | Some (v, r3) \<Rightarrow>
                             (case skip_ws r3 of
                                [] \<Rightarrow> None
                              | c # r4 \<Rightarrow>
                                  if c = CHR '','' then
                                    (if length r4 < length s
                                     then parse_members (acc @ [(k, v)]) r4 else None)
                                  else if c = CHR ''}'' then Some (JObject (acc @ [(k, v)]), r4)
                                  else None)))))"
  by pat_completeness auto
termination
  by (relation "measure (\<lambda>x. case x of
          Inl s \<Rightarrow> 2 * length s
        | Inr (Inl (acc, s)) \<Rightarrow> 2 * length s + 1
        | Inr (Inr (acc, s)) \<Rightarrow> 2 * length s + 1)") auto

declare parse_value.simps [simp del] parse_elements.simps [simp del] parse_members.simps [simp del]

text \<open>\<open>JSON.parse(text)\<close>: the value, or \<open>None\<close> where \<open>JSON.parse\<close> throws a SyntaxError.\<close>

definition JSON_parse :: "string \<Rightarrow> json option" where
  "JSON_parse text =
     (case parse_value text of
        None \<Rightarrow> None
      | Some (v, r) \<Rightarrow> if skip_ws r = [] then Some v else None)"

subsection \<open>parsePhpConfig\<close>

text \<open>
  The file system as the call finds it: whether \<open>access(name, R_OK)\<close> succeeds, and the
  content \<open>readFile(name)\<close> gives (\<open>None\<close> where it rejects).
\<close>

record files =
  access :: "string \<Rightarrow> bool"
  readFile :: "string \<Rightarrow> string option"

datatype error = AccessError string | ReadError string | SyntaxError

text \<open>The body of the \<open>try\<close> block: the parsed configuration, or what is thrown.\<close>

definition parsePhpConfig_try :: "files \<Rightarrow> string \<Rightarrow> error + json" where
  "parsePhpConfig_try fs aFilename =
     (if \<not> access fs aFilename then Inl (AccessError aFilename)
      else case readFile fs aFilename of
             None \<Rightarrow> Inl (ReadError aFilename)
           | Some phpConfig \<Rightarrow>
               (case JSON_parse (json_text phpConfig) of
                  None \<Rightarrow> Inl SyntaxError
                | Some v \<Rightarrow> Inr v))"

text \<open>
  The parsed configuration with the console after the call. The \<open>catch\<close> block writes
  the error to the console and returns \<open>false\<close>.
\<close>

definition parsePhpConfig :: "files \<Rightarrow> string \<Rightarrow> error list \<Rightarrow> json \<times> error list" where
  "parsePhpConfig fs aFilename console =
     (case parsePhpConfig_try fs aFilename of
        Inr v \<Rightarrow> (v, console)
      | Inl error \<Rightarrow> (JBool False, console @ [error]))"


section \<open>Notions used in the statements\<close>

text \<open>The entry \<open>getOffset\<close> reads for a zone: the cached one, or a new \<open>Offset\<close>.\<close>

definition entry_of :: "UFTimezone \<Rightarrow> string \<Rightarrow> Offset" where
  "entry_of this z = (case m_cache this z of Some e \<Rightarrow> e | None \<Rightarrow> new_Offset)"

text \<open>The entry has expired at the host's time: php is run.\<close>

definition expired :: "host \<Rightarrow> string \<Rightarrow> UFTimezone \<Rightarrow> bool" where
  "expired h z this = (\<not> time (entry_of this z) + CACHE_LIFE > now h)"

text \<open>The outcome of the php call that \<open>getOffset\<close> makes for a zone.\<close>

definition php_result :: "host \<Rightarrow> string \<Rightarrow> UFTimezone \<Rightarrow> exec_result" where
  "php_result h z this = execFileAsync h (m_php this) [''-n'', ''-r'', php_script z]"

text \<open>The call failed: the promise rejected, or there is text on stderr.\<close>

definition failed :: "exec_result \<Rightarrow> bool" where
  "failed r = (case r of Rejected e \<Rightarrow> True | Resolved out err \<Rightarrow> err \<noteq> [])"

text \<open>A run of lookups, each with the host state it finds.\<close>

fun getOffsets :: "(host \<times> string) list \<Rightarrow> UFTimezone \<Rightarrow> UFTimezone" where
  "getOffsets [] this = this"
| "getOffsets ((h, z) # cs) this = getOffsets cs (snd (getOffset h z this))"

text \<open>
  The 12-hour text as the specification words it: hour 0 displays as 12, minutes and
  seconds are two zero-padded digits, the suffix is am for hours 0 to 11 and pm for
  hours 12 to 23, after a space.
\<close>

definition spec_two_digits :: "nat \<Rightarrow> string" where
  "spec_two_digits n = [digit_char (n div 10), digit_char (n mod 10)]"

definition spec_12hour :: "nat \<Rightarrow> nat \<Rightarrow> nat \<Rightarrow> bool \<Rightarrow> string" where
  "spec_12hour H M S includeSeconds =
     digits_of (if H mod 12 = 0 then 12 else H mod 12) @ '':'' @ spec_two_digits M
       @ (if includeSeconds then '':'' @ spec_two_digits S else '''')
       @ (if H < 12 then '' am'' else '' pm'')"

subsection \<open>Concrete hosts and objects\<close>

text \<open>A server on UTC whose php cannot be started.\<close>

definition h_rejected :: host where
  "h_rejected = \<lparr>now = 5, execFileAsync = (\<lambda>file argv. Rejected ''spawn php ENOENT''),
     timezoneOffset = (\<lambda>t. 0), localTZA = (\<lambda>t. 0)\<rparr>"

text \<open>A server on UTC whose php writes a warning to stderr.\<close>

definition h_stderr :: host where
  "h_stderr = \<lparr>now = 5, execFileAsync = (\<lambda>file argv. Resolved ''3600'' ''PHP Warning''),
     timezoneOffset = (\<lambda>t. 0), localTZA = (\<lambda>t. 0)\<rparr>"

text \<open>A server on UTC whose php exits normally and prints a warning in place of a number.\<close>

definition h_unparsable :: host where
  "h_unparsable = \<lparr>now = 5,
     execFileAsync = (\<lambda>file argv. Resolved ([CHR 0x0A] @ ''Warning: no offset'') ''''),
     timezoneOffset = (\<lambda>t. 0), localTZA = (\<lambda>t. 0)\<rparr>"

text \<open>A server on UTC whose php answers with the offset 0, at two times.\<close>

definition h_utc :: "int \<Rightarrow> host" where
  "h_utc t = \<lparr>now = t, execFileAsync = (\<lambda>file argv. Resolved ''0'' ''''),
     timezoneOffset = (\<lambda>t. 0), localTZA = (\<lambda>t. 0)\<rparr>"

text \<open>
  A server on central European time: one hour ahead of UTC until 2024-03-31 01:00 UTC
  (time value 1711846800000), two hours ahead from then on. Its php answers 32400.
\<close>

definition h_cet :: host where
  "h_cet = \<lparr>now = 5, execFileAsync = (\<lambda>file argv. Resolved ''32400'' ''''),
     timezoneOffset = (\<lambda>t. if t < 1711846800000 then - 60 else - 120),
     localTZA = (\<lambda>t. if t < 1711846800000 then 3600000 else 7200000)\<rparr>"

definition fresh :: UFTimezone where
  "fresh = new_UFTimezone ''php'' []"

text \<open>An object that has stored the offset 7200 for Europe/Paris at time 1000.\<close>

definition with_paris :: UFTimezone where
  "with_paris = fresh\<lparr>m_cache := [''Europe/Paris'' \<mapsto> \<lparr>offset = Num 7200, time = 1000\<rparr>]\<rparr>"

text \<open>A server on UTC whose php answers with the offset of New York in summer.\<close>

definition h_new_york :: host where
  "h_new_york = \<lparr>now = 5, execFileAsync = (\<lambda>file argv. Resolved ''-14400'' ''''),
     timezoneOffset = (\<lambda>t. 0), localTZA = (\<lambda>t. 0)\<rparr>"

text \<open>A server on UTC whose php answers with the offset of London in summer.\<close>

definition h_london_summer :: host where
  "h_london_summer = \<lparr>now = 5, execFileAsync = (\<lambda>file argv. Resolved ''3600'' ''''),
     timezoneOffset = (\<lambda>t. 0), localTZA = (\<lambda>t. 0)\<rparr>"

text \<open>A server one hour ahead of UTC all year, whose php prints the given text.\<close>

definition h_plus_one :: "string \<Rightarrow> host" where
  "h_plus_one out = \<lparr>now = 5, execFileAsync = (\<lambda>file argv. Resolved out ''''),
     timezoneOffset = (\<lambda>t. - 60), localTZA = (\<lambda>t. 3600000)\<rparr>"

text \<open>
  A server on the local mean time of Monrovia, 44 minutes and 30 seconds behind UTC, for
  which \<open>getTimezoneOffset\<close> gives 44. Its php answers with the offset 0.
\<close>

definition h_monrovia :: host where
  "h_monrovia = \<lparr>now = 5, execFileAsync = (\<lambda>file argv. Resolved ''0'' ''''),
     timezoneOffset = (\<lambda>t. 44), localTZA = (\<lambda>t. - 2670000)\<rparr>"

subsection \<open>Concrete files\<close>

text \<open>
  The file of the round-trip example: the open tag, a newline, \<open>return [\<close>, three lines
  with an entry and a comma each, and \<open>];\<close>.
\<close>

definition php_example :: string where
  "php_example =
     ''<?php'' @ [CHR 0x0A]
     @ ''return ['' @ [CHR 0x0A]
     @ ''  '' @ [CHR 0x27] @ ''a'' @ [CHR 0x27] @ '' => 1,'' @ [CHR 0x0A]
     @ ''  '' @ [CHR 0x27] @ ''b'' @ [CHR 0x27] @ '' => '' @ [CHR 0x27] @ ''x'' @ [CHR 0x27] @ '','' @ [CHR 0x0A]
     @ ''  '' @ [CHR 0x27] @ ''c'' @ [CHR 0x27] @ '' => true,'' @ [CHR 0x0A]
     @ ''];''"

text \<open>The JSON document of the example: an object with a = 1, b = "x" and c = true.\<close>

definition json_example :: string where
  "json_example =
     ''{'' @ [CHR 0x22] @ ''a'' @ [CHR 0x22] @ '': 1, ''
     @ [CHR 0x22] @ ''b'' @ [CHR 0x22] @ '': '' @ [CHR 0x22] @ ''x'' @ [CHR 0x22] @ '', ''
     @ [CHR 0x22] @ ''c'' @ [CHR 0x22] @ '': true}''"

definition example_value :: json where
  "example_value = JObject [(units ''a'', JNumber 1 0), (units ''b'', JString (units ''x'')),
     (units ''c'', JBool True)]"

text \<open>A file system with the example at one path and a php list at another.\<close>

definition fs_example :: files where
  "fs_example =
     \<lparr>access = (\<lambda>name. name = ''/etc/app/config.php'' \<or> name = ''/etc/app/list.php''
                  \<or> name = ''/etc/app/locked.php''),
      readFile = (\<lambda>name. if name = ''/etc/app/config.php'' then Some php_example
                  else if name = ''/etc/app/list.php'' then Some ''<?php return [1, 2];''
                  else None)\<rparr>"


section \<open>Properties of getOffset\<close>

lemma summer_London: "Map_get s_summerTimezones ''Europe/London'' = Some 3600"
  by code_simp

lemma getOffset_failed:
  assumes "expired h z this" and "failed (php_result h z this)"
  shows "fst (getOffset h z this) = undefined_or (Map_get s_summerTimezones z) (Num 0)"
    and "m_cache (snd (getOffset h z this)) = m_cache this"
  using assms
  by (auto simp: getOffset_def expired_def entry_of_def failed_def php_result_def Let_def
      split: exec_result.splits option.splits)

lemma undefined_or_zero:
  "undefined_or v (Num 0) = (case v of None \<Rightarrow> Num 0 | Some x \<Rightarrow> Num x)"
  by (auto simp: undefined_or_def num_or_def split: option.splits)

lemma expired_fresh: "0 \<le> now h \<Longrightarrow> expired h z fresh"
  by (simp add: expired_def entry_of_def fresh_def new_UFTimezone_def new_Offset_def CACHE_LIFE_def)

lemma expired_with_paris: "expired (h_rejected\<lparr>now := 3601000\<rparr>) ''Europe/Paris'' with_paris"
  by (simp add: expired_def entry_of_def with_paris_def CACHE_LIFE_def h_rejected_def)

text \<open>
  C1 (as the code has it): when the entry has expired and the php call fails (the promise
  rejects, or there is text on stderr), \<open>getOffset\<close> returns the value of the zone in the
  summer table, or 0 when the zone is not in it; for Europe/London that value is 3600.
\<close>

theorem getOffset_failure_uses_summer_table:
  assumes "expired h z this" and "failed (php_result h z this)"
  shows "fst (getOffset h z this)
           = (case Map_get s_summerTimezones z of None \<Rightarrow> Num 0 | Some v \<Rightarrow> Num v)
       \<and> (z = ''Europe/London'' \<longrightarrow> fst (getOffset h z this) = Num 3600)"
proof -
  have g: "fst (getOffset h z this)
             = (case Map_get s_summerTimezones z of None \<Rightarrow> Num 0 | Some v \<Rightarrow> Num v)"
    using getOffset_failed(1)[OF assms] by (simp add: undefined_or_zero)
  have "fst (getOffset h z this) = Num 3600" if "z = ''Europe/London''"
  proof -
    have "Map_get s_summerTimezones z = Some 3600"
      unfolding that by (rule summer_London)
    then show ?thesis unfolding g by simp
  qed
  with g show ?thesis by blast
qed

text \<open>C1, witness: a new object, php cannot be started, zone Europe/London.\<close>

theorem getOffset_failure_uses_summer_table_witness:
  "expired h_rejected ''Europe/London'' fresh
   \<and> failed (php_result h_rejected ''Europe/London'' fresh)
   \<and> fst (getOffset h_rejected ''Europe/London'' fresh) = Num 3600"
proof -
  have e: "expired h_rejected ''Europe/London'' fresh"
    by (simp add: expired_fresh h_rejected_def)
  have f: "failed (php_result h_rejected ''Europe/London'' fresh)"
    by (simp add: failed_def php_result_def h_rejected_def)
  have "fst (getOffset h_rejected ''Europe/London'' fresh) = Num 3600"
    using getOffset_failure_uses_summer_table[OF e f] by blast
  with e f show ?thesis by blast
qed

text \<open>
  C1, counterexample to the claim as stated: with text on stderr, the lookup of
  Europe/London on a new object does not return 0.
\<close>

theorem getOffset_London_failure_not_zero:
  "expired h_stderr ''Europe/London'' fresh
   \<and> failed (php_result h_stderr ''Europe/London'' fresh)
   \<and> fst (getOffset h_stderr ''Europe/London'' fresh) \<noteq> Num 0"
proof -
  have e: "expired h_stderr ''Europe/London'' fresh"
    by (simp add: expired_fresh h_stderr_def)
  have f: "failed (php_result h_stderr ''Europe/London'' fresh)"
    by (simp add: failed_def php_result_def h_stderr_def)
  have "fst (getOffset h_stderr ''Europe/London'' fresh) = Num 3600"
    unfolding getOffset_failed(1)[OF e f] undefined_or_zero by (simp add: summer_London)
  with e f show ?thesis by simp
qed

text \<open>
  C2, the code at the failing input: php exits normally, stderr is empty and stdout holds
  a warning and no number. \<open>getOffset\<close> returns \<open>NaN\<close>, stores it in the cache with the
  current time, logs at debug level only, and answers \<open>NaN\<close> from the cache on the next
  call.
\<close>

theorem getOffset_unparsable_stdout_is_cached:
  "fst (getOffset h_unparsable ''Europe/London'' fresh) = NaN
   \<and> m_cache (snd (getOffset h_unparsable ''Europe/London'' fresh)) ''Europe/London''
       = Some \<lparr>offset = NaN, time = 5\<rparr>
   \<and> m_log (snd (getOffset h_unparsable ''Europe/London'' fresh))
       = [Log_debug ''TIMEZONE'' ''getOffset'' ''Europe/London'' \<lparr>offset = NaN, time = 5\<rparr>]
   \<and> fst (getOffset (h_unparsable\<lparr>now := 1000\<rparr>) ''Europe/London''
            (snd (getOffset h_unparsable ''Europe/London'' fresh))) = NaN"
  by (simp add: getOffset_def h_unparsable_def fresh_def new_UFTimezone_def new_Offset_def
      CACHE_LIFE_def LOG_PREFIX_def parseInt_def Let_def starts_with_def radixDigit_def
      digitValue_def isWhiteSpace_def)

text \<open>
  C10: when the entry has expired and the php call fails (the promise rejects, or there
  is text on stderr), the cache after \<open>getOffset\<close> is the cache before it: no entry is
  added and no entry changes.
\<close>

theorem getOffset_failure_keeps_cache:
  assumes "expired h z this" and "failed (php_result h z this)"
  shows "m_cache (snd (getOffset h z this)) = m_cache this"
  using getOffset_failed(2)[OF assms] .

text \<open>
  C10, witness: an expired entry for Europe/Paris keeps its fields when php cannot be
  started, and a new object gets no entry for UTC when php writes to stderr.
\<close>

theorem getOffset_failure_keeps_cache_witness:
  "expired (h_rejected\<lparr>now := 3601000\<rparr>) ''Europe/Paris'' with_paris
   \<and> failed (php_result (h_rejected\<lparr>now := 3601000\<rparr>) ''Europe/Paris'' with_paris)
   \<and> m_cache (snd (getOffset (h_rejected\<lparr>now := 3601000\<rparr>) ''Europe/Paris'' with_paris))
         ''Europe/Paris'' = Some \<lparr>offset = Num 7200, time = 1000\<rparr>
   \<and> expired h_stderr ''UTC'' fresh \<and> failed (php_result h_stderr ''UTC'' fresh)
   \<and> m_cache (snd (getOffset h_stderr ''UTC'' fresh)) ''UTC'' = None"
proof -
  have e: "expired (h_rejected\<lparr>now := 3601000\<rparr>) ''Europe/Paris'' with_paris"
    by (rule expired_with_paris)
  have f: "failed (php_result (h_rejected\<lparr>now := 3601000\<rparr>) ''Europe/Paris'' with_paris)"
    by (simp add: failed_def php_result_def h_rejected_def)
  have e': "expired h_stderr ''UTC'' fresh"
    by (simp add: expired_fresh h_stderr_def)
  have f': "failed (php_result h_stderr ''UTC'' fresh)"
    by (simp add: failed_def php_result_def h_stderr_def)
  have 1: "m_cache (snd (getOffset (h_rejected\<lparr>now := 3601000\<rparr>) ''Europe/Paris'' with_paris))
             ''Europe/Paris'' = Some \<lparr>offset = Num 7200, time = 1000\<rparr>"
    unfolding getOffset_failure_keeps_cache[OF e f] by (simp add: with_paris_def)
  have 2: "m_cache (snd (getOffset h_stderr ''UTC'' fresh)) ''UTC'' = None"
    unfolding getOffset_failure_keeps_cache[OF e' f'] by (simp add: fresh_def new_UFTimezone_def)
  from e f e' f' 1 2 show ?thesis by blast
qed

text \<open>
  C3 (as the code has it): the cache of a new object is empty; a call of \<open>getOffset\<close>
  leaves the entries of all other zones as they are, and the zone it is called with has
  an entry afterwards exactly when it had one before or its entry had expired and the php
  call succeeded; over any run of calls no key is removed, and the keys of the cache are
  among the zones passed.
\<close>

lemma getOffset_cache:
  "m_cache (snd (getOffset h z this)) =
     (if expired h z this \<and> \<not> failed (php_result h z this)
      then (m_cache this)(z \<mapsto> \<lparr>offset = fst (getOffset h z this), time = now h\<rparr>)
      else m_cache this)"
  by (auto simp: getOffset_def expired_def entry_of_def failed_def php_result_def Let_def
      split: exec_result.splits option.splits)

lemma getOffsets_dom_mono: "dom (m_cache this) \<subseteq> dom (m_cache (getOffsets cs this))"
proof (induction cs arbitrary: this)
  case Nil
  show ?case by simp
next
  case (Cons c cs)
  obtain h z where c: "c = (h, z)" by (cases c)
  have "dom (m_cache this) \<subseteq> dom (m_cache (snd (getOffset h z this)))"
    by (auto simp: getOffset_cache)
  also have "\<dots> \<subseteq> dom (m_cache (getOffsets cs (snd (getOffset h z this))))"
    by (rule Cons.IH)
  finally show ?case by (simp add: c)
qed

lemma getOffsets_dom_upper:
  "dom (m_cache (getOffsets cs this)) \<subseteq> dom (m_cache this) \<union> snd ` set cs"
proof (induction cs arbitrary: this)
  case Nil
  show ?case by simp
next
  case (Cons c cs)
  obtain h z where c: "c = (h, z)" by (cases c)
  have "dom (m_cache (snd (getOffset h z this))) \<subseteq> insert z (dom (m_cache this))"
    by (auto simp: getOffset_cache split: if_splits)
  with Cons.IH[of "snd (getOffset h z this)"] show ?case
    by (auto simp: c)
qed

theorem cache_grows_on_success_only:
  "m_cache (new_UFTimezone aPhp aLog) = Map.empty
   \<and> (z \<in> dom (m_cache (snd (getOffset h z this))) \<longleftrightarrow>
        z \<in> dom (m_cache this) \<or> (expired h z this \<and> \<not> failed (php_result h z this)))
   \<and> (\<forall>z'. z' \<noteq> z \<longrightarrow> m_cache (snd (getOffset h z this)) z' = m_cache this z')
   \<and> dom (m_cache this) \<subseteq> dom (m_cache (getOffsets cs this))
   \<and> dom (m_cache (getOffsets cs (new_UFTimezone aPhp aLog))) \<subseteq> snd ` set cs"
proof -
  have "dom (m_cache (getOffsets cs (new_UFTimezone aPhp aLog))) \<subseteq> snd ` set cs"
    using getOffsets_dom_upper[of cs "new_UFTimezone aPhp aLog"]
    by (simp add: new_UFTimezone_def)
  then show ?thesis
    using getOffsets_dom_mono[of this cs]
    by (auto simp: getOffset_cache new_UFTimezone_def)
qed

text \<open>
  C3, counterexample to the claim as stated: the first lookup of UTC on a new object, with
  php failing to start, leaves the cache without an entry for UTC.
\<close>

theorem first_lookup_failure_adds_no_entry:
  "m_cache fresh ''UTC'' = None
   \<and> ''UTC'' \<notin> dom (m_cache (snd (getOffset h_rejected ''UTC'' fresh)))"
  by (simp add: getOffset_cache failed_def php_result_def h_rejected_def fresh_def
      new_UFTimezone_def dom_def)

text \<open>
  C3, witness: a successful first lookup of UTC adds its entry, keeps the entry of
  Europe/Paris, and a run of two lookups has keys among the two zones.
\<close>

theorem cache_grows_on_success_only_witness:
  "expired (h_utc 5) ''UTC'' fresh \<and> \<not> failed (php_result (h_utc 5) ''UTC'' fresh)
   \<and> ''UTC'' \<in> dom (m_cache (snd (getOffset (h_utc 5) ''UTC'' fresh)))
   \<and> ''Europe/Paris'' \<noteq> ''UTC''
   \<and> m_cache (snd (getOffset (h_utc 5) ''UTC'' with_paris)) ''Europe/Paris''
        = Some \<lparr>offset = Num 7200, time = 1000\<rparr>
   \<and> dom (m_cache (getOffsets [(h_rejected, ''UTC''), (h_utc 6, ''Europe/Paris'')] fresh))
        \<subseteq> {''UTC'', ''Europe/Paris''}"
proof -
  have e: "expired (h_utc 5) ''UTC'' fresh"
    by (simp add: expired_fresh h_utc_def)
  have f: "\<not> failed (php_result (h_utc 5) ''UTC'' fresh)"
    by (simp add: failed_def php_result_def h_utc_def)
  have 1: "''UTC'' \<in> dom (m_cache (snd (getOffset (h_utc 5) ''UTC'' fresh)))"
    using cache_grows_on_success_only[of "''php''" "[]" "''UTC''" "h_utc 5" fresh "[]"] e f
    by blast
  have 2: "m_cache (snd (getOffset (h_utc 5) ''UTC'' with_paris)) ''Europe/Paris''
        = Some \<lparr>offset = Num 7200, time = 1000\<rparr>"
    using cache_grows_on_success_only[of "''php''" "[]" "''UTC''" "h_utc 5" with_paris "[]"]
    by (simp add: with_paris_def)
  have 3: "dom (m_cache (getOffsets [(h_rejected, ''UTC''), (h_utc 6, ''Europe/Paris'')] fresh))
        \<subseteq> {''UTC'', ''Europe/Paris''}"
    using cache_grows_on_success_only[of "''php''" "[]" "''UTC''" "h_utc 5" fresh
        "[(h_rejected, ''UTC''), (h_utc 6, ''Europe/Paris'')]"]
    by (simp add: fresh_def)
  from e f 1 2 3 show ?thesis by simp
qed

text \<open>
  C4: when the zone has a cached entry and the time since it was stored is less than the
  cache life, \<open>getOffset\<close> returns the cached offset and leaves the object as it is; in
  particular no process is started.
\<close>

theorem getOffset_within_lifetime:
  assumes "m_cache this z = Some e" and "now h - time e < CACHE_LIFE"
  shows "getOffset h z this = (offset e, this)
       \<and> spawned (snd (getOffset h z this)) = spawned this"
  using assms by (simp add: getOffset_def Let_def)

text \<open>C4, witness: the entry of Europe/Paris, stored at 1000, read at 3600999.\<close>

theorem getOffset_within_lifetime_witness:
  "m_cache with_paris ''Europe/Paris'' = Some \<lparr>offset = Num 7200, time = 1000\<rparr>
   \<and> now (h_rejected\<lparr>now := 3600999\<rparr>) - time \<lparr>offset = Num 7200, time = 1000\<rparr> < CACHE_LIFE
   \<and> getOffset (h_rejected\<lparr>now := 3600999\<rparr>) ''Europe/Paris'' with_paris = (Num 7200, with_paris)
   \<and> spawned (snd (getOffset (h_rejected\<lparr>now := 3600999\<rparr>) ''Europe/Paris'' with_paris)) = []"
proof -
  have c: "m_cache with_paris ''Europe/Paris'' = Some \<lparr>offset = Num 7200, time = 1000\<rparr>"
    by (simp add: with_paris_def)
  have l: "now (h_rejected\<lparr>now := 3600999\<rparr>) - time \<lparr>offset = Num 7200, time = 1000\<rparr> < CACHE_LIFE"
    by (simp add: CACHE_LIFE_def)
  have s: "spawned with_paris = []"
    by (simp add: with_paris_def fresh_def new_UFTimezone_def)
  from getOffset_within_lifetime[OF c l] c l s show ?thesis by simp
qed

text \<open>
  A zone looked up twice: after a successful refresh, a second call within the cache life
  returns the stored value and changes nothing.
\<close>

lemma getOffset_repeated:
  assumes "expired h1 z this" and "php_result h1 z this = Resolved out []"
    and "now h2 - now h1 < CACHE_LIFE"
  shows "getOffset h2 z (snd (getOffset h1 z this)) = (parseInt out, snd (getOffset h1 z this))"
  using assms
  by (simp add: getOffset_def expired_def entry_of_def php_result_def Let_def)

text \<open>
  C5 (as the code has it): a new \<open>Offset\<close> has offset 0 and a time equal to minus the cache
  life, whatever the current time is. At every current time from 0 on it fails the
  freshness test, and the first \<open>getOffset\<close> for a zone that is not in the cache runs php.
\<close>

theorem new_Offset_expired:
  "offset new_Offset = Num 0 \<and> time new_Offset = - CACHE_LIFE
   \<and> (0 \<le> now h \<longrightarrow> \<not> now h - time new_Offset < CACHE_LIFE)
   \<and> (0 \<le> now h \<longrightarrow> m_cache this z = None \<longrightarrow>
        spawned (snd (getOffset h z this))
          = spawned this @ [(m_php this, [''-n'', ''-r'', php_script z])])"
  by (auto simp: new_Offset_def getOffset_def Let_def split: exec_result.splits)

text \<open>C5, witness: the first lookup of UTC on a new object at time 5.\<close>

theorem new_Offset_expired_witness:
  "0 \<le> now h_rejected \<and> m_cache fresh ''UTC'' = None
   \<and> \<not> now h_rejected - time new_Offset < CACHE_LIFE
   \<and> spawned (snd (getOffset h_rejected ''UTC'' fresh))
        = [(''php'', [''-n'', ''-r'', php_script ''UTC''])]"
  using new_Offset_expired[of h_rejected fresh "''UTC''"]
  by (simp add: h_rejected_def fresh_def new_UFTimezone_def)

text \<open>
  C5, counterexample to the claim as stated: at the current time 5 the time of a new
  \<open>Offset\<close> is not the current time minus the cache life.
\<close>

theorem new_Offset_time_not_now_minus_life:
  "now h_rejected = 5 \<and> time new_Offset \<noteq> now h_rejected - CACHE_LIFE"
  by (simp add: new_Offset_def h_rejected_def)

section \<open>Properties of the date conversions\<close>

text \<open>
  C6 (as the code has it): for a valid server date, when both calls get the same offset,
  the local date in between is a valid date, and the server's own time zone offset is the
  same at the local date as at the server date, converting to the zone and back gives the
  server date again.
\<close>

theorem server_local_server_roundtrip:
  assumes same_offset: "fst (getOffset h2 z (snd (getOffset h1 z this))) = fst (getOffset h1 z this)"
    and valid: "\<bar>t\<bar> \<le> 8640000000000000"
    and local: "fst (getLocalFromServerDate h1 (Some t) z this) = Some l"
    and same_zone: "timezoneOffset h2 l = timezoneOffset h1 t"
  shows "fst (getServerFromLocalDate h2 (Some l) z (snd (getLocalFromServerDate h1 (Some t) z this)))
           = Some t"
proof -
  obtain v where v: "fst (getOffset h1 z this) = Num v"
    using local
    by (cases "fst (getOffset h1 z this)")
      (simp_all add: getLocalFromServerDate_def Let_def new_Date_def num_add_def num_mul_def
        getTime_def getTimezoneOffset_def)
  have l: "l = t + 60000 * timezoneOffset h1 t + 1000 * v"
    using local v
    by (simp add: getLocalFromServerDate_def Let_def new_Date_def num_add_def num_mul_def
        getTime_def getTimezoneOffset_def split: if_splits)
  have s: "snd (getLocalFromServerDate h1 (Some t) z this) = snd (getOffset h1 z this)"
    by (simp add: getLocalFromServerDate_def Let_def)
  show ?thesis
    using same_offset v valid same_zone
    by (simp add: s l getServerFromLocalDate_def Let_def new_Date_def num_sub_def num_mul_def
        getTime_def getTimezoneOffset_def)
qed

text \<open>
  C6, counterexample to the claim as stated. A server on central European time converts
  the server date 1711846799000 (one second before its clocks go forward) to Tokyo time
  and back, with the offset 32400 in both calls: the result is one hour later than the
  date it started from. And on a server on UTC the earliest valid date has no valid local
  date in New York, four hours behind, so that the way back gives an invalid date.
\<close>

theorem roundtrip_fails_across_dst_change:
  "fst (getOffset h_cet ''Asia/Tokyo''
          (snd (getLocalFromServerDate h_cet (Some 1711846799000) ''Asia/Tokyo'' fresh)))
     = fst (getOffset h_cet ''Asia/Tokyo'' fresh)
   \<and> fst (getLocalFromServerDate h_cet (Some 1711846799000) ''Asia/Tokyo'' fresh)
     = Some 1711875599000
   \<and> fst (getServerFromLocalDate h_cet (Some 1711875599000) ''Asia/Tokyo''
          (snd (getLocalFromServerDate h_cet (Some 1711846799000) ''Asia/Tokyo'' fresh)))
     = Some 1711850399000
   \<and> fst (getOffset h_new_york ''America/New_York''
          (snd (getLocalFromServerDate h_new_york (Some (- 8640000000000000))
                  ''America/New_York'' fresh)))
     = fst (getOffset h_new_york ''America/New_York'' fresh)
   \<and> fst (getLocalFromServerDate h_new_york (Some (- 8640000000000000))
          ''America/New_York'' fresh) = None
   \<and> fst (getServerFromLocalDate h_new_york None ''America/New_York''
          (snd (getLocalFromServerDate h_new_york (Some (- 8640000000000000))
                  ''America/New_York'' fresh))) = None"
  by (simp add: getLocalFromServerDate_def getServerFromLocalDate_def getOffset_def h_cet_def
      fresh_def new_UFTimezone_def new_Offset_def CACHE_LIFE_def Let_def parseInt_def
      starts_with_def radixDigit_def digitValue_def isWhiteSpace_def radixValue_def
      new_Date_def num_add_def num_sub_def num_mul_def getTime_def getTimezoneOffset_def
      h_new_york_def)

text \<open>
  C6, witness: a server one hour ahead of UTC, the zone Europe/Paris with the offset 7200
  in both calls, and the server date one day after the epoch: the local date is one hour
  later, and the way back gives the server date.
\<close>

theorem server_local_server_roundtrip_witness:
  "fst (getOffset ((h_plus_one ''7200'')\<lparr>now := 1000\<rparr>) ''Europe/Paris''
          (snd (getOffset (h_plus_one ''7200'') ''Europe/Paris'' fresh)))
     = fst (getOffset (h_plus_one ''7200'') ''Europe/Paris'' fresh)
   \<and> fst (getOffset (h_plus_one ''7200'') ''Europe/Paris'' fresh) = Num 7200
   \<and> fst (getLocalFromServerDate (h_plus_one ''7200'') (Some 86400000) ''Europe/Paris'' fresh)
       = Some 90000000
   \<and> timezoneOffset ((h_plus_one ''7200'')\<lparr>now := 1000\<rparr>) 90000000
       = timezoneOffset (h_plus_one ''7200'') 86400000
   \<and> timezoneOffset (h_plus_one ''7200'') 86400000 = - 60
   \<and> fst (getServerFromLocalDate ((h_plus_one ''7200'')\<lparr>now := 1000\<rparr>) (Some 90000000)
            ''Europe/Paris''
            (snd (getLocalFromServerDate (h_plus_one ''7200'') (Some 86400000)
                    ''Europe/Paris'' fresh)))
       = Some 86400000"
proof -
  have o: "fst (getOffset (h_plus_one ''7200'') ''Europe/Paris'' fresh) = Num 7200"
    by (simp add: getOffset_def h_plus_one_def fresh_def new_UFTimezone_def new_Offset_def
        CACHE_LIFE_def Let_def parseInt_def starts_with_def radixDigit_def digitValue_def
        isWhiteSpace_def radixValue_def)
  have a: "fst (getOffset ((h_plus_one ''7200'')\<lparr>now := 1000\<rparr>) ''Europe/Paris''
          (snd (getOffset (h_plus_one ''7200'') ''Europe/Paris'' fresh)))
     = fst (getOffset (h_plus_one ''7200'') ''Europe/Paris'' fresh)"
    by (simp add: getOffset_def h_plus_one_def fresh_def new_UFTimezone_def new_Offset_def
        CACHE_LIFE_def Let_def)
  have b: "\<bar>86400000 :: int\<bar> \<le> 8640000000000000" by simp
  have c: "fst (getLocalFromServerDate (h_plus_one ''7200'') (Some 86400000) ''Europe/Paris'' fresh)
       = Some 90000000"
    by (simp add: getLocalFromServerDate_def getOffset_def h_plus_one_def fresh_def
        new_UFTimezone_def new_Offset_def CACHE_LIFE_def Let_def parseInt_def
        starts_with_def radixDigit_def digitValue_def isWhiteSpace_def radixValue_def
        new_Date_def num_add_def num_mul_def getTime_def getTimezoneOffset_def)
  have d: "timezoneOffset ((h_plus_one ''7200'')\<lparr>now := 1000\<rparr>) 90000000
       = timezoneOffset (h_plus_one ''7200'') 86400000"
    by (simp add: h_plus_one_def)
  have e: "timezoneOffset (h_plus_one ''7200'') 86400000 = - 60"
    by (simp add: h_plus_one_def)
  from server_local_server_roundtrip[OF a b c d] a o c d e show ?thesis by simp
qed

section \<open>Properties of getLocalTime\<close>

lemma digits_of_small: "n < 10 \<Longrightarrow> digits_of n = [digit_char n]"
  by (simp add: digits_of.simps)

lemma digits_of_two:
  "10 \<le> n \<Longrightarrow> n < 100 \<Longrightarrow> digits_of n = [digit_char (n div 10), digit_char (n mod 10)]"
  by (subst digits_of.simps) (simp add: digits_of_small)

lemma twoDigits_spec: "0 \<le> i \<Longrightarrow> i < 100 \<Longrightarrow> twoDigits (Num i) = spec_two_digits (nat i)"
proof -
  assume i: "0 \<le> i" "i < 100"
  show ?thesis
  proof (cases "i < 10")
    case True
    with i have "nat i < 10" "nat i div 10 = 0" by auto
    with True i show ?thesis
      by (simp add: twoDigits_def num_lt_def number_toString_def spec_two_digits_def
          digits_of_small digit_char_def)
  next
    case False
    with i have "10 \<le> nat i" "nat i < 100" by auto
    with False i show ?thesis
      by (simp add: twoDigits_def num_lt_def number_toString_def spec_two_digits_def
          digits_of_two)
  qed
qed

lemma formatTime_12hour:
  "formatTime h (Some l) False includeSeconds
     = spec_12hour (nat ((localTime h l div 3600000) mod 24))
         (nat ((localTime h l div 60000) mod 60))
         (nat ((localTime h l div 1000) mod 60)) includeSeconds"
proof -
  define H where "H = (localTime h l div 3600000) mod 24"
  define M where "M = (localTime h l div 60000) mod 60"
  define S where "S = (localTime h l div 1000) mod 60"
  have H: "0 \<le> H" "H < 24" and M: "0 \<le> M" "M < 60" and S: "0 \<le> S" "S < 60"
    by (simp_all add: H_def M_def S_def)
  have gh: "getHours h (Some l) = Num H"
    and gm: "getMinutes h (Some l) = Num M"
    and gs: "getSeconds h (Some l) = Num S"
    by (simp_all add: getHours_def getMinutes_def getSeconds_def H_def M_def S_def)
  have rem: "num_rem (Num (int k)) (Num 12) = Num (int (k mod 12))" for k
    by (simp add: num_rem_def sgn_if zmod_int)
  have "number_toString (num_or (num_rem (Num (int k)) (Num 12)) (Num 12))
          = digits_of (if k mod 12 = 0 then 12 else k mod 12)" for k
    unfolding rem by (simp add: num_or_def number_toString_def)
  from this[of "nat H"]
  have hs: "number_toString (num_or (num_rem (Num H) (Num 12)) (Num 12))
              = digits_of (if nat H mod 12 = 0 then 12 else nat H mod 12)"
    unfolding int_nat_eq using H(1) by (simp only: if_True)
  have lt: "num_lt (Num H) (Num 12) = (nat H < 12)"
    using H by (auto simp: num_lt_def)
  have tm: "twoDigits (Num M) = spec_two_digits (nat M)"
    using M by (simp add: twoDigits_spec)
  have ts: "twoDigits (Num S) = spec_two_digits (nat S)"
    using S by (simp add: twoDigits_spec)
  have "formatTime h (Some l) False includeSeconds
          = spec_12hour (nat H) (nat M) (nat S) includeSeconds"
    apply (simp only: formatTime_def Let_def gh gm gs if_False)
    apply (simp only: hs lt tm ts spec_12hour_def)
    apply simp
    done
  then show ?thesis
    unfolding H_def M_def S_def .
qed

lemma spec_12hour_midnight: "spec_12hour 0 5 S False = ''12:05 am''"
  by (simp add: spec_12hour_def spec_two_digits_def digit_char_def digits_of_two)

lemma spec_12hour_afternoon: "spec_12hour 13 30 9 True = ''1:30:09 pm''"
  by (simp add: spec_12hour_def spec_two_digits_def digit_char_def digits_of_small)

text \<open>
  C9 (as the code has it): for a zone that does not use 24 hr formatting and a server
  date whose local date is a valid date, with hour \<open>H\<close>, minute \<open>M\<close> and second \<open>S\<close> as
  \<open>getHours\<close>, \<open>getMinutes\<close> and \<open>getSeconds\<close> read them, \<open>getLocalTime\<close> gives the 12-hour
  text: hour 0 shows as 12, minutes and seconds have two digits, the suffix is am below
  hour 12 and pm from hour 12 on. A local time of 0:05 gives 12:05 am, and 13:30:09 with
  seconds gives 1:30:09 pm.
\<close>

theorem getLocalTime_12hour:
  assumes "\<not> is24 z"
    and "fst (getLocalFromServerDate h d z this) = Some l"
    and "getHours h (Some l) = Num (int H)"
    and "getMinutes h (Some l) = Num (int M)"
    and "getSeconds h (Some l) = Num (int S)"
  shows "fst (getLocalTime h d z includeSeconds this) = spec_12hour H M S includeSeconds
       \<and> (H = 0 \<and> M = 5 \<longrightarrow> fst (getLocalTime h d z False this) = ''12:05 am'')
       \<and> (H = 13 \<and> M = 30 \<and> S = 9 \<longrightarrow> fst (getLocalTime h d z True this) = ''1:30:09 pm'')"
proof -
  have Hi: "(localTime h l div 3600000) mod 24 = int H"
    using assms(3) by (simp add: getHours_def)
  have Mi: "(localTime h l div 60000) mod 60 = int M"
    using assms(4) by (simp add: getMinutes_def)
  have Si: "(localTime h l div 1000) mod 60 = int S"
    using assms(5) by (simp add: getSeconds_def)
  have f: "formatTime h (Some l) False i = spec_12hour H M S i" for i
    unfolding formatTime_12hour Hi Mi Si nat_int by (rule refl)
  have g: "fst (getLocalTime h d z i this) = spec_12hour H M S i" for i
    using assms(1,2) f by (simp add: getLocalTime_def Let_def)
  show ?thesis
  proof (intro conjI impI)
    show "fst (getLocalTime h d z includeSeconds this) = spec_12hour H M S includeSeconds"
      by (rule g)
  next
    assume "H = 0 \<and> M = 5"
    then show "fst (getLocalTime h d z False this) = ''12:05 am''"
      unfolding g using spec_12hour_midnight by simp
  next
    assume "H = 13 \<and> M = 30 \<and> S = 9"
    then show "fst (getLocalTime h d z True this) = ''1:30:09 pm''"
      unfolding g using spec_12hour_afternoon by simp
  qed
qed

text \<open>
  C9, counterexample to the claim as stated: on a server on UTC, with the offset 3600 for
  Europe/London, the last valid server date has no valid local date, and the text is
  \<open>12:NaN pm\<close>: the minutes are not two digits.
\<close>

theorem getLocalTime_invalid_local_date:
  "\<not> is24 ''Europe/London''
   \<and> \<bar>8640000000000000 :: int\<bar> \<le> 8640000000000000
   \<and> fst (getOffset h_london_summer ''Europe/London'' fresh) = Num 3600
   \<and> fst (getLocalFromServerDate h_london_summer (Some 8640000000000000) ''Europe/London''
          fresh) = None
   \<and> fst (getLocalTime h_london_summer (Some 8640000000000000) ''Europe/London'' False fresh)
       = ''12:NaN pm''"
  by (simp add: getLocalTime_def formatTime_def getLocalFromServerDate_def getOffset_def
      h_london_summer_def fresh_def new_UFTimezone_def new_Offset_def CACHE_LIFE_def Let_def
      parseInt_def starts_with_def radixDigit_def digitValue_def isWhiteSpace_def
      radixValue_def new_Date_def num_add_def num_mul_def getTime_def getTimezoneOffset_def
      is24_def indexOf_def getHours_def getMinutes_def getSeconds_def num_or_def num_rem_def
      num_lt_def twoDigits_def number_toString_def digits_of.simps digit_char_def)

text \<open>
  C9, witness: on a server one hour ahead of UTC, five minutes after midnight in London
  (offset 3600) and 13:30:09 in New York (offset -14400).
\<close>

theorem getLocalTime_12hour_witness:
  "\<not> is24 ''Europe/London''
   \<and> fst (getLocalFromServerDate (h_plus_one ''3600'') (Some 83100000) ''Europe/London'' fresh)
       = Some 83100000
   \<and> getHours (h_plus_one ''3600'') (Some 83100000) = Num (int 0)
   \<and> getMinutes (h_plus_one ''3600'') (Some 83100000) = Num (int 5)
   \<and> getSeconds (h_plus_one ''3600'') (Some 83100000) = Num (int 0)
   \<and> fst (getLocalTime (h_plus_one ''3600'') (Some 83100000) ''Europe/London'' False fresh)
       = ''12:05 am''
   \<and> \<not> is24 ''America/New_York''
   \<and> fst (getLocalFromServerDate (h_plus_one ''-14400'') (Some 63009000) ''America/New_York''
          fresh) = Some 45009000
   \<and> getHours (h_plus_one ''-14400'') (Some 45009000) = Num (int 13)
   \<and> getMinutes (h_plus_one ''-14400'') (Some 45009000) = Num (int 30)
   \<and> getSeconds (h_plus_one ''-14400'') (Some 45009000) = Num (int 9)
   \<and> fst (getLocalTime (h_plus_one ''-14400'') (Some 63009000) ''America/New_York'' True fresh)
       = ''1:30:09 pm''"
proof -
  have a: "\<not> is24 ''Europe/London''"
    by (simp add: is24_def indexOf_def starts_with_def)
  have b: "fst (getLocalFromServerDate (h_plus_one ''3600'') (Some 83100000) ''Europe/London''
             fresh) = Some 83100000"
    by (simp add: getLocalFromServerDate_def getOffset_def h_plus_one_def fresh_def
        new_UFTimezone_def new_Offset_def CACHE_LIFE_def Let_def parseInt_def
        starts_with_def radixDigit_def digitValue_def isWhiteSpace_def radixValue_def
        new_Date_def num_add_def num_mul_def getTime_def getTimezoneOffset_def)
  have c: "getHours (h_plus_one ''3600'') (Some 83100000) = Num (int 0)"
    "getMinutes (h_plus_one ''3600'') (Some 83100000) = Num (int 5)"
    "getSeconds (h_plus_one ''3600'') (Some 83100000) = Num (int 0)"
    by (simp_all add: getHours_def getMinutes_def getSeconds_def localTime_def h_plus_one_def)
  have a': "\<not> is24 ''America/New_York''"
    by (simp add: is24_def indexOf_def starts_with_def)
  have b': "fst (getLocalFromServerDate (h_plus_one ''-14400'') (Some 63009000)
              ''America/New_York'' fresh) = Some 45009000"
    by (simp add: getLocalFromServerDate_def getOffset_def h_plus_one_def fresh_def
        new_UFTimezone_def new_Offset_def CACHE_LIFE_def Let_def parseInt_def
        starts_with_def radixDigit_def digitValue_def isWhiteSpace_def radixValue_def
        new_Date_def num_add_def num_mul_def getTime_def getTimezoneOffset_def)
  have c': "getHours (h_plus_one ''-14400'') (Some 45009000) = Num (int 13)"
    "getMinutes (h_plus_one ''-14400'') (Some 45009000) = Num (int 30)"
    "getSeconds (h_plus_one ''-14400'') (Some 45009000) = Num (int 9)"
    by (simp_all add: getHours_def getMinutes_def getSeconds_def localTime_def h_plus_one_def)
  have 1: "fst (getLocalTime (h_plus_one ''3600'') (Some 83100000) ''Europe/London'' False fresh)
             = ''12:05 am''"
    using getLocalTime_12hour[OF a b c, of False] by blast
  have 2: "fst (getLocalTime (h_plus_one ''-14400'') (Some 63009000) ''America/New_York'' True
             fresh) = ''1:30:09 pm''"
    using getLocalTime_12hour[OF a' b' c', of True] by blast
  from a b c 1 a' b' c' 2 show ?thesis by blast
qed

text \<open>
  The local fields follow the exact adjustment of the host, not the whole minutes of
  \<open>getTimezoneOffset\<close>: on the server on Monrovia mean time the server date 0, shown for
  Europe/London with the offset 0, is 30 seconds before midnight.
\<close>

lemma getLocalTime_monrovia:
  "fst (getLocalTime h_monrovia (Some 0) ''Europe/London'' True fresh) = ''11:59:30 pm''"
  by (simp add: getLocalTime_def formatTime_def getLocalFromServerDate_def getOffset_def
      h_monrovia_def fresh_def new_UFTimezone_def new_Offset_def CACHE_LIFE_def Let_def
      parseInt_def starts_with_def radixDigit_def digitValue_def isWhiteSpace_def
      radixValue_def new_Date_def num_add_def num_mul_def getTime_def getTimezoneOffset_def
      is24_def indexOf_def getHours_def getMinutes_def getSeconds_def localTime_def
      num_or_def num_rem_def num_lt_def twoDigits_def number_toString_def digits_of.simps
      digit_char_def)

section \<open>Properties of parsePhpConfig\<close>

lemma parse_php_example: "JSON_parse (json_text php_example) = Some example_value"
  by code_simp

lemma parse_json_example: "JSON_parse json_example = Some example_value"
  by code_simp

lemma parse_php_list: "JSON_parse (json_text ''<?php return [1, 2];'') = None"
  by code_simp

text \<open>
  C7: for a readable file whose content is the example text, \<open>parsePhpConfig\<close> returns the
  value that \<open>JSON.parse\<close> gives for the document with a = 1, b = "x" and c = true, and
  writes nothing to the console.
\<close>

theorem parsePhpConfig_example:
  assumes "access fs aFilename" and "readFile fs aFilename = Some php_example"
  shows "JSON_parse json_example = Some example_value
       \<and> JSON_parse (json_text php_example) = JSON_parse json_example
       \<and> parsePhpConfig fs aFilename console = (example_value, console)"
  using assms
  by (simp add: parsePhpConfig_def parsePhpConfig_try_def parse_php_example parse_json_example)

text \<open>C7, witness: the example at the path /etc/app/config.php.\<close>

theorem parsePhpConfig_example_witness:
  "access fs_example ''/etc/app/config.php''
   \<and> readFile fs_example ''/etc/app/config.php'' = Some php_example
   \<and> parsePhpConfig fs_example ''/etc/app/config.php'' [] = (example_value, [])"
proof -
  have a: "access fs_example ''/etc/app/config.php''"
    by (simp add: fs_example_def)
  have r: "readFile fs_example ''/etc/app/config.php'' = Some php_example"
    by (simp add: fs_example_def)
  from parsePhpConfig_example[OF a r, of "[]"] a r show ?thesis by blast
qed

text \<open>
  C8: \<open>parsePhpConfig\<close> always returns. Whatever is thrown inside the \<open>try\<close> block is
  written to the console and the result is \<open>false\<close>: when the file cannot be accessed,
  when it cannot be read, and when the rewritten text is not a JSON document.
\<close>

theorem parsePhpConfig_returns_false_on_error:
  "(\<not> access fs aFilename \<longrightarrow>
      parsePhpConfig fs aFilename console = (JBool False, console @ [AccessError aFilename]))
   \<and> (access fs aFilename \<longrightarrow> readFile fs aFilename = None \<longrightarrow>
      parsePhpConfig fs aFilename console = (JBool False, console @ [ReadError aFilename]))
   \<and> (access fs aFilename \<longrightarrow> readFile fs aFilename = Some phpConfig \<longrightarrow>
      JSON_parse (json_text phpConfig) = None \<longrightarrow>
      parsePhpConfig fs aFilename console = (JBool False, console @ [SyntaxError]))
   \<and> (\<forall>e. parsePhpConfig_try fs aFilename = Inl e \<longrightarrow>
      parsePhpConfig fs aFilename console = (JBool False, console @ [e]))
   \<and> (\<forall>v. parsePhpConfig_try fs aFilename = Inr v \<longrightarrow>
      parsePhpConfig fs aFilename console = (v, console))"
  by (simp add: parsePhpConfig_def parsePhpConfig_try_def)

text \<open>
  C8, witness: a path that does not exist, a file that cannot be read, and a file whose
  rewritten text is not JSON.
\<close>

theorem parsePhpConfig_returns_false_on_error_witness:
  "\<not> access fs_example ''/no/such/file.php''
   \<and> parsePhpConfig fs_example ''/no/such/file.php'' []
       = (JBool False, [AccessError ''/no/such/file.php''])
   \<and> access fs_example ''/etc/app/locked.php''
   \<and> readFile fs_example ''/etc/app/locked.php'' = None
   \<and> parsePhpConfig fs_example ''/etc/app/locked.php'' []
       = (JBool False, [ReadError ''/etc/app/locked.php''])
   \<and> access fs_example ''/etc/app/list.php''
   \<and> readFile fs_example ''/etc/app/list.php'' = Some ''<?php return [1, 2];''
   \<and> JSON_parse (json_text ''<?php return [1, 2];'') = None
   \<and> parsePhpConfig fs_example ''/etc/app/list.php'' [] = (JBool False, [SyntaxError])"
proof -
  have a1: "\<not> access fs_example ''/no/such/file.php''"
    by (simp add: fs_example_def)
  have a2: "access fs_example ''/etc/app/locked.php''"
    and r2: "readFile fs_example ''/etc/app/locked.php'' = None"
    by (simp_all add: fs_example_def)
  have a3: "access fs_example ''/etc/app/list.php''"
    and r3: "readFile fs_example ''/etc/app/list.php'' = Some ''<?php return [1, 2];''"
    by (simp_all add: fs_example_def)
  note p3 = parse_php_list
  have 1: "parsePhpConfig fs_example ''/no/such/file.php'' []
       = (JBool False, [AccessError ''/no/such/file.php''])"
    using parsePhpConfig_returns_false_on_error[of fs_example "''/no/such/file.php''" "[]"] a1
    by simp
  have 2: "parsePhpConfig fs_example ''/etc/app/locked.php'' []
       = (JBool False, [ReadError ''/etc/app/locked.php''])"
    using parsePhpConfig_returns_false_on_error[of fs_example "''/etc/app/locked.php''" "[]"] a2 r2
    by simp
  have 3: "parsePhpConfig fs_example ''/etc/app/list.php'' [] = (JBool False, [SyntaxError])"
    using parsePhpConfig_returns_false_on_error[of fs_example "''/etc/app/list.php''" "[]"
        "''<?php return [1, 2];''"] a3 r3 p3
    by simp
  from a1 1 a2 r2 2 a3 r3 p3 3 show ?thesis by blast
qed

section \<open>Facts about the text model\<close>

text \<open>
  Every result of \<open>ends\<close> is what is left of the text behind a prefix, so the text that
  \<open>replace_all\<close> and \<open>replace_first\<close> hand to the replacement is the matched one.
\<close>

lemma ends_suffix: "r' \<in> set (ends i r s) \<Longrightarrow> \<exists>p. s = p @ r'"
proof (induction i r s arbitrary: r' rule: ends.induct)
  case (6 i r1 r2 s)
  from "6.prems" have "r' \<in> set (concat (map (ends i r2) (ends i r1 s)))"
    by (subst (asm) ends.simps(6)) assumption
  then obtain m where m: "m \<in> set (ends i r1 s)" and r': "r' \<in> set (ends i r2 m)"
    by (auto simp del: ends.simps)
  from "6.IH"(1)[OF m] obtain p where p: "s = p @ m" by blast
  from "6.IH"(2)[OF m r'] obtain p' where "m = p' @ r'" by blast
  with p show ?case by simp
next
  case (8 i r s)
  show ?case
  proof (cases "r' = s")
    case True
    then show ?thesis by simp
  next
    case False
    from "8.prems" have "r' \<in> set (concat (map (ends i (Star r))
        (filter (\<lambda>s'. length s' < length s) (ends i r s))) @ [s])"
      by (subst (asm) ends.simps(8)) assumption
    with False obtain m where m: "m \<in> set (ends i r s)" and lt: "length m < length s"
      and r': "r' \<in> set (ends i (Star r) m)"
      by (auto simp del: ends.simps)
    from "8.IH"(1)[OF m] obtain p where p: "s = p @ m" by blast
    from m lt have "m \<in> set (filter (\<lambda>s'. length s' < length s) (ends i r s))" by simp
    from "8.IH"(2)[OF this r'] obtain p' where "m = p' @ r'" by blast
    with p show ?thesis by simp
  qed
next
  case (9 i r s)
  show ?case
  proof (cases "r' = s")
    case True
    then show ?thesis by simp
  next
    case False
    from "9.prems" have "r' \<in> set (s # concat (map (ends i (Lazy r))
        (filter (\<lambda>s'. length s' < length s) (ends i r s))))"
      by (subst (asm) ends.simps(9)) assumption
    with False obtain m where m: "m \<in> set (ends i r s)" and lt: "length m < length s"
      and r': "r' \<in> set (ends i (Lazy r) m)"
      by (auto simp del: ends.simps)
    from "9.IH"(1)[OF m] obtain p where p: "s = p @ m" by blast
    from m lt have "m \<in> set (filter (\<lambda>s'. length s' < length s) (ends i r s))" by simp
    from "9.IH"(2)[OF this r'] obtain p' where "m = p' @ r'" by blast
    with p show ?thesis by simp
  qed
next
  case (7 i r1 r2 s)
  from "7.prems" have "r' \<in> set (ends i r1 s) \<or> r' \<in> set (ends i r2 s)"
    by (subst (asm) ends.simps(7)) simp
  with "7.IH" show ?case by blast
qed (auto split: list.splits if_splits)

lemma ends_matched:
  assumes "r' \<in> set (ends i r s)"
  shows "s = take (length s - length r') s @ r'"
proof -
  from ends_suffix[OF assms] obtain p where "s = p @ r'" by blast
  then show ?thesis by simp
qed

text \<open>
  What \<open>parse_value\<close>, \<open>parse_elements\<close> and \<open>parse_members\<close> leave is shorter than what
  they were given, so the length checks in their definition never fail.
\<close>

lemma skip_ws_length: "length (skip_ws s) \<le> length s"
  by (simp add: skip_ws_def length_dropWhile_le)

lemma skip_ws_Cons: "skip_ws s = c # r \<Longrightarrow> length r < length s"
  using skip_ws_length[of s] by simp

lemma parse_chars_shorter: "parse_chars s = Some (k, r) \<Longrightarrow> length r < length s"
proof (induction "length s" arbitrary: s k r rule: less_induct)
  case less
  note IH = less.hyps
  from less.prems obtain c cs where s: "s = c # cs"
    by (cases s) simp_all
  show ?case
  proof (cases "c = CHR 0x22")
    case True
    with less.prems s show ?thesis by simp
  next
    case nq: False
    show ?thesis
    proof (cases "c = CHR 0x5C")
      case bs: True
      from less.prems s nq bs obtain e r0 where cs: "cs = e # r0"
        by (cases cs) simp_all
      show ?thesis
      proof (cases "e = CHR ''u''")
        case True
        from less.prems s nq bs cs True
        obtain h1 h2 h3 h4 r' where r0: "r0 = h1 # h2 # h3 # h4 # r'"
          by (simp split: list.splits)
        from less.prems s nq bs cs True r0
        obtain k' where "parse_chars r' = Some (k', r)"
          by (auto split: option.splits)
        from IH[OF _ this] s cs r0 show ?thesis by simp
      next
        case False
        from less.prems s nq bs cs False
        obtain k' where "parse_chars r0 = Some (k', r)"
          by (auto split: option.splits)
        from IH[OF _ this] s cs show ?thesis by simp
      qed
    next
      case False
      from less.prems s nq False
      obtain k' where "parse_chars cs = Some (k', r)"
        by (auto split: if_splits)
      from IH[OF _ this] s show ?thesis by simp
    qed
  qed
qed

lemma if_None_Some: "(if C then None else Some (a, b)) = Some (v, r) \<Longrightarrow> \<not> C \<and> b = r"
  by (simp split: if_splits)

lemma parse_number_shorter:
  assumes "parse_number s = Some (v, r)"
  shows "length r < length s"
proof -
  define s1 where "s1 = (if starts_with ''-'' s then tl s else s)"
  define ip where "ip = (if starts_with ''0'' s1 then ''0'' else takeWhile isDigit s1)"
  define s2 where "s2 = drop (length ip) s1"
  define fp where "fp = (if starts_with ''.'' s2 then takeWhile isDigit (tl s2) else [])"
  define s3 where "s3 = (if starts_with ''.'' s2 then drop (length fp) (tl s2) else s2)"
  define s4 where "s4 = (if starts_with ''e'' s3 \<or> starts_with ''E'' s3 then tl s3 else s3)"
  define s5 where "s5 = (if (starts_with ''e'' s3 \<or> starts_with ''E'' s3)
      \<and> (starts_with ''-'' s4 \<or> starts_with ''+'' s4) then tl s4 else s4)"
  define ep where "ep = (if starts_with ''e'' s3 \<or> starts_with ''E'' s3 then takeWhile isDigit s5 else [])"
  have "\<not> (ip = [] \<or> (starts_with ''.'' s2 \<and> fp = [])
            \<or> ((starts_with ''e'' s3 \<or> starts_with ''E'' s3) \<and> ep = []))
        \<and> drop (length ep) s5 = r"
    using assms
    unfolding parse_number_def Let_def s1_def ip_def s2_def fp_def s3_def s4_def s5_def ep_def
    by (rule if_None_Some)
  then have ip: "ip \<noteq> []" and r: "r = drop (length ep) s5"
    by blast+
  have "length ip \<le> length s1"
  proof (cases "starts_with ''0'' s1")
    case True
    then have "s1 \<noteq> []" by (auto simp: starts_with_def)
    with True show ?thesis by (cases s1) (simp_all add: ip_def)
  next
    case False
    then show ?thesis by (simp add: ip_def length_takeWhile_le)
  qed
  with ip have "length s2 < length s1"
    by (cases ip) (simp_all add: s2_def)
  moreover have "length s1 \<le> length s" by (simp add: s1_def)
  moreover have "length s3 \<le> length s2" by (simp add: s3_def)
  moreover have "length s4 \<le> length s3" by (simp add: s4_def)
  moreover have "length s5 \<le> length s4" by (simp add: s5_def)
  moreover have "length r \<le> length s5" by (simp add: r)
  ultimately show ?thesis by linarith
qed

lemma parse_shorter:
  "(\<forall>v r. parse_value s = Some (v, r) \<longrightarrow> length r < length s)"
  "(\<forall>v r. parse_elements acc s = Some (v, r) \<longrightarrow> length r < length s)"
  "(\<forall>v r. parse_members acc' s = Some (v, r) \<longrightarrow> length r < length s)"
proof (induction s and acc s and acc' s rule: parse_value_parse_elements_parse_members.induct)
  case (1 s)
  show ?case
  proof (intro allI impI)
    fix v r
    assume a: "parse_value s = Some (v, r)"
    then obtain c r0 where sk: "skip_ws s = c # r0"
      by (subst (asm) parse_value.simps) (simp split: list.splits)
    note l0 = skip_ws_Cons[OF sk]
    have l1: "length (c # r0) \<le> length s"
      using skip_ws_length[of s] sk by simp
    show "length r < length s"
    proof (cases "c = CHR ''{''")
      case True
      from a sk True obtain c' r' where sk': "skip_ws r0 = c' # r'"
        by (subst (asm) parse_value.simps) (simp split: list.splits)
      show ?thesis
      proof (cases "c' = CHR ''}''")
        case True
        with a sk sk' \<open>c = CHR ''{''\<close> have "r = r'"
          by (subst (asm) parse_value.simps) simp
        with skip_ws_Cons[OF sk'] l0 show ?thesis by simp
      next
        case False
        with a sk sk' \<open>c = CHR ''{''\<close> l0 have "parse_members [] r0 = Some (v, r)"
          by (subst (asm) parse_value.simps) simp
        with "1.IH"(1)[OF sk \<open>c = CHR ''{''\<close> sk' False l0] l0 show ?thesis by simp
      qed
    next
      case nb: False
      show ?thesis
      proof (cases "c = CHR ''[''")
        case True
        from a sk nb True obtain c' r' where sk': "skip_ws r0 = c' # r'"
          by (subst (asm) parse_value.simps) (simp split: list.splits)
        show ?thesis
        proof (cases "c' = CHR '']''")
          case cl: True
          with a sk sk' nb True have "r = r'"
            by (subst (asm) parse_value.simps) simp
          with skip_ws_Cons[OF sk'] l0 show ?thesis by simp
        next
          case False
          with a sk sk' nb True l0 have "parse_elements [] r0 = Some (v, r)"
            by (subst (asm) parse_value.simps) simp
          with "1.IH"(2)[OF sk nb True sk' False l0] l0 show ?thesis by simp
        qed
      next
        case na: False
        from a sk nb na have
          "(\<exists>k. parse_chars r0 = Some (k, r)) \<or> r = drop 4 (c # r0) \<or> r = drop 5 (c # r0)
           \<or> parse_number (c # r0) = Some (v, r)"
          by (subst (asm) parse_value.simps) (auto split: if_splits)
        then show ?thesis
          using l0 l1 parse_chars_shorter parse_number_shorter
          by (elim disjE exE) (fastforce+)
      qed
    qed
  qed
next
  case (2 acc s)
  show ?case
  proof (intro allI impI)
    fix v r
    assume a: "parse_elements acc s = Some (v, r)"
    then obtain x r1 where pv: "parse_value s = Some (x, r1)"
      by (subst (asm) parse_elements.simps) (auto split: option.splits)
    from "2.IH"(1) pv have l1: "length r1 < length s" by blast
    from a pv obtain c r' where sk: "skip_ws r1 = c # r'"
      by (subst (asm) parse_elements.simps) (simp split: list.splits)
    from skip_ws_Cons[OF sk] l1 have l2: "length r' < length s" by simp
    show "length r < length s"
    proof (cases "c = CHR '',''")
      case True
      with a pv sk l2 have "parse_elements (acc @ [x]) r' = Some (v, r)"
        by (subst (asm) parse_elements.simps) simp
      with "2.IH"(2)[OF pv refl sk True l2] l2 show ?thesis by simp
    next
      case False
      with a pv sk have "r = r'"
        by (subst (asm) parse_elements.simps) (simp split: if_splits)
      with l2 show ?thesis by simp
    qed
  qed
next
  case (3 acc s)
  show ?case
  proof (intro allI impI)
    fix v r
    assume a: "parse_members acc s = Some (v, r)"
    then obtain q r0 where sk: "skip_ws s = q # r0"
      by (subst (asm) parse_members.simps) (simp split: list.splits)
    from a sk have q: "\<not> q \<noteq> CHR 0x22"
      by (subst (asm) parse_members.simps) (simp split: if_splits)
    from a sk q obtain k r1 where pc: "parse_chars r0 = Some (k, r1)"
      by (subst (asm) parse_members.simps) (auto split: option.splits)
    from a sk q pc obtain colon r2 where sk1: "skip_ws r1 = colon # r2"
      by (subst (asm) parse_members.simps) (simp split: list.splits)
    from a sk q pc sk1 have g: "\<not> (colon \<noteq> CHR '':'' \<or> \<not> length r2 < length s)"
      by (subst (asm) parse_members.simps) (simp split: if_splits)
    from a sk q pc sk1 g obtain x r3 where pv: "parse_value r2 = Some (x, r3)"
      by (subst (asm) parse_members.simps) (auto split: option.splits)
    from "3.IH"(1)[OF sk q pc refl sk1 g] pv have l3: "length r3 < length r2" by blast
    from a sk q pc sk1 g pv obtain c r4 where sk3: "skip_ws r3 = c # r4"
      by (subst (asm) parse_members.simps) (simp split: list.splits)
    from skip_ws_Cons[OF sk3] l3 g have l4: "length r4 < length s" by simp
    show "length r < length s"
    proof (cases "c = CHR '',''")
      case True
      with a sk q pc sk1 g pv sk3 l4 have "parse_members (acc @ [(k, x)]) r4 = Some (v, r)"
        by (subst (asm) parse_members.simps) simp
      with "3.IH"(2)[OF sk q pc refl sk1 g pv refl sk3 True l4] l4 show ?thesis by simp
    next
      case False
      with a sk q pc sk1 g pv sk3 have "r = r4"
        by (subst (asm) parse_members.simps) (simp split: if_splits)
      with l4 show ?thesis by simp
    qed
  qed
qed

end
